theory Spec2Isabelle
  imports Complex_Main "HOL-Library.List_Lexorder" "HOL-Library.Product_Lexorder"
    "HOL-Library.Char_ord"
begin

section \<open>Data model\<close>

text \<open>
  The engine is two Python modules, \<^verbatim>\<open>analysis/analyze.py\<close> (segment statistics and the
  1.5-sigma rule) and \<^verbatim>\<open>analysis/analyze_ml.py\<close> (random-forest residuals), working on
  three tables: \<^verbatim>\<open>listings\<close>, \<^verbatim>\<open>group_stats\<close> and \<^verbatim>\<open>listing_analysis\<close>.

  Numbers: the Python floats are modelled as \<^typ>\<open>real\<close>, and a NaN, a NULL or a cell
  that \<^verbatim>\<open>pd.to_numeric(..., errors='coerce')\<close> cannot parse as \<^term>\<open>None\<close>. The
  definitions of the two modules compute without rounding; the section on rounded
  arithmetic repeats the computation of the records with the rounding of every
  operation made explicit. Timestamps are seconds since the epoch.
\<close>

record listing =
  listing_id :: string
  price :: "real option"
  beds :: "real option"
  baths :: "real option"
  sq_ft :: "real option"
  year_built :: "real option"
  property_type :: "string option"
  zip_code :: string
  dq_status :: "string option"
  scrape_timestamp :: int

text \<open>A row of \<^verbatim>\<open>group_stats\<close> (the surrogate \<^verbatim>\<open>id\<close> column is not modelled).\<close>

record gs_row =
  gs_zip_code :: string
  gs_property_type :: string
  stat_date :: int
  gs_mean_ppsq :: "real option"
  gs_std_ppsq :: "real option"
  count_listings :: nat

text \<open>A row of \<^verbatim>\<open>listing_analysis\<close>, with the three columns only the ML module writes.\<close>

record la_row =
  la_listing_id :: string
  price_per_sqft :: "real option"
  is_anomaly :: bool
  anomaly_type :: "string option"
  mean_ppsq :: "real option"
  std_ppsq :: "real option"
  predicted_price :: "real option"
  deviation_percentage :: "real option"
  la_dq_status :: "string option"
  analyzed_at :: int

record db =
  listings :: "listing list"
  group_stats :: "gs_row list"
  listing_analysis :: "la_row list"

datatype dialect = SQLite | PostgreSQL

text \<open>
  The module constant \<^verbatim>\<open>DB_DIALECT\<close> and the one fact about the schema that the
  upsert statements depend on: whether \<^verbatim>\<open>group_stats\<close> carries a unique constraint on
  \<^verbatim>\<open>(zip_code, property_type, stat_date)\<close>. In \<^verbatim>\<open>listing_analysis\<close> the column
  \<^verbatim>\<open>listing_id\<close> is the primary key in every schema of the repository.
\<close>

record config =
  DB_DIALECT :: dialect
  gs_unique :: bool

datatype error = KeyError | DatabaseError | FitError

definition date_of :: "int \<Rightarrow> int" where
  "date_of t = t div 86400"

section \<open>Statistical analysis (analyze.py)\<close>

definition THRESHOLD_MULTIPLIER :: real where
  "THRESHOLD_MULTIPLIER = 3 / 2"

text \<open>The comparison \<^verbatim>\<open>df[col] > 0\<close>, which is false on NaN.\<close>

definition positive :: "real option \<Rightarrow> bool" where
  "positive v = (case v of None \<Rightarrow> False | Some x \<Rightarrow> 0 < x)"

text \<open>
  \<^verbatim>\<open>df['price'] / df['sq_ft']\<close>, NaN as soon as one operand is. Both modules divide only
  after the rows with \<^verbatim>\<open>sq_ft > 0\<close> have been selected.
\<close>

definition ppsq :: "listing \<Rightarrow> real option" where
  "ppsq l = (case price l of None \<Rightarrow> None
     | Some p \<Rightarrow> (case sq_ft l of None \<Rightarrow> None | Some a \<Rightarrow> Some (p / a)))"

text \<open>pandas' \<^verbatim>\<open>mean\<close>, \<^verbatim>\<open>std\<close> (sample formula, \<^verbatim>\<open>ddof=1\<close>) over the non-NaN values.\<close>

definition mean :: "real list \<Rightarrow> real option" where
  "mean xs = (if xs = [] then None else Some (sum_list xs / real (length xs)))"

definition std :: "real list \<Rightarrow> real option" where
  "std xs = (if length xs < 2 then None
     else Some (sqrt (sum_list (map (\<lambda>x. (x - sum_list xs / real (length xs))\<^sup>2) xs)
                       / real (length xs - 1))))"

text \<open>
  \<^verbatim>\<open>df.groupby(['zip_code', 'property_type'])['ppsq'].agg(['mean', 'std', 'count'])\<close>:
  rows with a NULL key are left out of every group, the groups come sorted by key, and
  the aggregates skip NaN values.
\<close>

definition group_key :: "listing \<Rightarrow> (string \<times> string) option" where
  "group_key l = map_option (\<lambda>pt. (zip_code l, pt)) (property_type l)"

definition group_values :: "listing list \<Rightarrow> string \<times> string \<Rightarrow> real list" where
  "group_values df k = List.map_filter ppsq (filter (\<lambda>l. group_key l = Some k) df)"

record stat_row =
  s_zip_code :: string
  s_property_type :: string
  mu :: "real option"
  sigma :: "real option"
  n :: nat

definition groupby_stats :: "listing list \<Rightarrow> stat_row list" where
  "groupby_stats df =
     map (\<lambda>k. \<lparr>s_zip_code = fst k, s_property_type = snd k,
                mu = mean (group_values df k), sigma = std (group_values df k),
                n = length (group_values df k)\<rparr>)
         (sort (remdups (List.map_filter group_key df)))"

definition gs_record :: "int \<Rightarrow> stat_row \<Rightarrow> gs_row" where
  "gs_record d s = \<lparr>gs_zip_code = s_zip_code s, gs_property_type = s_property_type s,
     stat_date = d, gs_mean_ppsq = mu s, gs_std_ppsq = sigma s, count_listings = n s\<rparr>"

text \<open>\<^verbatim>\<open>df.merge(stats, on=group_cols, how='left')\<close>: the statistics of the row's group.\<close>

definition lookup_stats :: "stat_row list \<Rightarrow> listing \<Rightarrow> stat_row option" where
  "lookup_stats stats l =
     find (\<lambda>s. group_key l = Some (s_zip_code s, s_property_type s)) stats"

definition row_mu :: "stat_row list \<Rightarrow> listing \<Rightarrow> real option" where
  "row_mu stats l = (case lookup_stats stats l of None \<Rightarrow> None | Some s \<Rightarrow> mu s)"

definition row_sigma :: "stat_row list \<Rightarrow> listing \<Rightarrow> real option" where
  "row_sigma stats l = (case lookup_stats stats l of None \<Rightarrow> None | Some s \<Rightarrow> sigma s)"

text \<open>The nested function \<^verbatim>\<open>flag_row\<close>, on the three cells of the row it reads.\<close>

fun flag_row :: "real option \<Rightarrow> real option \<Rightarrow> real option \<Rightarrow> bool \<times> string option" where
  "flag_row (Some x) (Some m) (Some s) =
     (let upper = m + THRESHOLD_MULTIPLIER * s;
          lower = m - THRESHOLD_MULTIPLIER * s
      in if x > upper then (True, Some ''over-priced'')
         else if x < lower then (True, Some ''under-priced'')
         else (False, None))"
| "flag_row _ _ _ = (False, None)"

text \<open>
  One entry of \<^verbatim>\<open>records\<close>; \<^verbatim>\<open>analyzed_at\<close> is the clock reading taken for this
  record inside the write loop.
\<close>

definition stat_verdict :: "stat_row list \<Rightarrow> listing \<Rightarrow> int \<Rightarrow> la_row" where
  "stat_verdict stats l t =
     (let flags = flag_row (ppsq l) (row_mu stats l) (row_sigma stats l)
      in \<lparr>la_listing_id = listing_id l, price_per_sqft = ppsq l,
          is_anomaly = fst flags, anomaly_type = snd flags,
          mean_ppsq = row_mu stats l, std_ppsq = row_sigma stats l,
          predicted_price = None, deviation_percentage = None, la_dq_status = None,
          analyzed_at = t\<rparr>)"

text \<open>
  The list \<^verbatim>\<open>records\<close>: one entry per row of the merged frame, in its order. The write
  loop reads the clock once per record; \<open>clock 0\<close> is the reading that gives
  \<^verbatim>\<open>stat_date\<close> and \<open>clock (Suc i)\<close> the reading for record \<open>i\<close>.
\<close>

definition stat_records :: "stat_row list \<Rightarrow> (nat \<Rightarrow> int) \<Rightarrow> listing list \<Rightarrow> la_row list" where
  "stat_records stats clock df =
     map (\<lambda>(i, l). stat_verdict stats l (clock (Suc i))) (enumerate 0 df)"

subsection \<open>The upsert statements\<close>

definition gs_key :: "gs_row \<Rightarrow> string \<times> string \<times> int" where
  "gs_key r = (gs_zip_code r, gs_property_type r, stat_date r)"

text \<open>
  \<^verbatim>\<open>INSERT OR REPLACE INTO group_stats\<close>: SQLite deletes the rows that conflict with the
  new one on a unique constraint and then inserts it. Without such a constraint on the
  three key columns nothing conflicts (the statement gives no \<^verbatim>\<open>id\<close>).
\<close>

definition sqlite_replace_gs :: "bool \<Rightarrow> gs_row \<Rightarrow> gs_row list \<Rightarrow> gs_row list" where
  "sqlite_replace_gs uniq r T =
     (if uniq then filter (\<lambda>x. gs_key x \<noteq> gs_key r) T @ [r] else T @ [r])"

text \<open>
  \<^verbatim>\<open>INSERT ... ON CONFLICT (zip_code, property_type, stat_date) DO UPDATE SET\<close> the three
  aggregate columns.
\<close>

definition pg_upsert_gs :: "gs_row \<Rightarrow> gs_row list \<Rightarrow> gs_row list" where
  "pg_upsert_gs r T =
     (if gs_key r \<in> set (map gs_key T)
      then map (\<lambda>x. if gs_key x = gs_key r
                     then x\<lparr>gs_mean_ppsq := gs_mean_ppsq r, gs_std_ppsq := gs_std_ppsq r,
                            count_listings := count_listings r\<rparr>
                     else x) T
      else T @ [r])"

text \<open>
  The batch of \<^verbatim>\<open>gs_records\<close>, written in one transaction. PostgreSQL rejects an
  \<^verbatim>\<open>ON CONFLICT\<close> target that no unique index matches; the exception leaves the block
  and the transaction is rolled back.
\<close>

definition store_group_stats :: "config \<Rightarrow> gs_row list \<Rightarrow> gs_row list \<Rightarrow> error + gs_row list" where
  "store_group_stats cfg recs T =
     (case DB_DIALECT cfg of
        SQLite \<Rightarrow> Inr (fold (sqlite_replace_gs (gs_unique cfg)) recs T)
      | PostgreSQL \<Rightarrow>
          if gs_unique cfg then Inr (fold pg_upsert_gs recs T) else Inl DatabaseError)"

text \<open>
  \<^verbatim>\<open>listing_analysis\<close>, as analyze.py writes it. \<^verbatim>\<open>INSERT OR REPLACE\<close> names seven
  columns, so the replaced row loses what the other three held; the PostgreSQL statement
  updates the six derived columns and the timestamp of the row in place.
\<close>

definition sqlite_replace_la :: "la_row \<Rightarrow> la_row list \<Rightarrow> la_row list" where
  "sqlite_replace_la r T = filter (\<lambda>x. la_listing_id x \<noteq> la_listing_id r) T @ [r]"

definition pg_upsert_la :: "la_row \<Rightarrow> la_row list \<Rightarrow> la_row list" where
  "pg_upsert_la r T =
     (if la_listing_id r \<in> set (map la_listing_id T)
      then map (\<lambda>x. if la_listing_id x = la_listing_id r
                     then x\<lparr>price_per_sqft := price_per_sqft r, is_anomaly := is_anomaly r,
                            anomaly_type := anomaly_type r, mean_ppsq := mean_ppsq r,
                            std_ppsq := std_ppsq r, analyzed_at := analyzed_at r\<rparr>
                     else x) T
      else T @ [r])"

definition store_analysis :: "config \<Rightarrow> la_row list \<Rightarrow> la_row list \<Rightarrow> la_row list" where
  "store_analysis cfg recs T =
     (case DB_DIALECT cfg of
        SQLite \<Rightarrow> fold sqlite_replace_la recs T
      | PostgreSQL \<Rightarrow> fold pg_upsert_la recs T)"

subsection \<open>analyze\_and\_store\<close>

text \<open>
  \<open>select_zip\<close> is the query \<^verbatim>\<open>SELECT * FROM listings WHERE zip_code = :zip\<close> and
  \<open>stat_frame\<close> the frame after \<^verbatim>\<open>df = df[df['sq_ft'] > 0]\<close>.
  The function returns nothing; the model returns the exception it raises, if any, and
  the database it leaves. When the zip code has listings but none with a positive area,
  \<^verbatim>\<open>df.apply(flag_row, axis=1, result_type='expand')\<close> runs on an empty frame and gives
  back a copy of it, so that \<^verbatim>\<open>flags[0]\<close> raises \<^verbatim>\<open>KeyError\<close>; nothing has been
  written by then.
\<close>

definition select_zip :: "string \<Rightarrow> db \<Rightarrow> listing list" where
  "select_zip zc d = filter (\<lambda>l. zip_code l = zc) (listings d)"

definition stat_frame :: "string \<Rightarrow> db \<Rightarrow> listing list" where
  "stat_frame zc d = filter (\<lambda>l. positive (sq_ft l)) (select_zip zc d)"

definition analyze_and_store :: "config \<Rightarrow> (nat \<Rightarrow> int) \<Rightarrow> string \<Rightarrow> db \<Rightarrow> error option \<times> db" where
  "analyze_and_store cfg clock zc d =
     (if select_zip zc d = [] then (None, d)
      else
        let df = stat_frame zc d;
            stats = groupby_stats df;
            gs_records = map (gs_record (date_of (clock 0))) stats
        in case (if gs_records = [] then Inr (group_stats d)
                 else store_group_stats cfg gs_records (group_stats d)) of
             Inl e \<Rightarrow> (Some e, d)
           | Inr gs \<Rightarrow>
               if df = [] then (Some KeyError, d\<lparr>group_stats := gs\<rparr>)
               else (None, d\<lparr>group_stats := gs,
                              listing_analysis :=
                                store_analysis cfg (stat_records stats clock df)
                                  (listing_analysis d)\<rparr>))"

section \<open>Model-residual analysis (analyze\_ml.py)\<close>

definition DEVIATION_THRESHOLD :: real where
  "DEVIATION_THRESHOLD = 15"

definition MIN_TRAIN_SIZE :: nat where
  "MIN_TRAIN_SIZE = 500"

text \<open>
  \<^verbatim>\<open>load_recent_listings(zip_code, days=90)\<close>; both callers leave \<^verbatim>\<open>days\<close> at its
  default. \<open>now\<close> is the clock reading of the call. The window is compared on
  instants; where the database keeps \<^verbatim>\<open>scrape_timestamp\<close> as text, the comparison of the
  source is one of text, which can place the cut elsewhere within the first day.
\<close>

definition load_recent_listings :: "string \<Rightarrow> int \<Rightarrow> db \<Rightarrow> listing list" where
  "load_recent_listings zc now d =
     filter (\<lambda>l. zip_code l = zc \<and> now - 90 * 86400 \<le> scrape_timestamp l
                 \<and> dq_status l = Some ''PASS'') (listings d)"

text \<open>pandas' \<^verbatim>\<open>median\<close> of a column (NaN skipped, NaN when no value is left).\<close>

definition median :: "real option list \<Rightarrow> real option" where
  "median vs =
     (let xs = sort (List.map_filter id vs); k = length xs
      in if k = 0 then None
         else if odd k then Some (xs ! (k div 2))
         else Some ((xs ! (k div 2 - 1) + xs ! (k div 2)) / 2))"

definition fillna :: "real option \<Rightarrow> real option \<Rightarrow> real option" where
  "fillna v m = (case v of None \<Rightarrow> m | Some x \<Rightarrow> Some x)"

definition prepare_features :: "listing list \<Rightarrow> listing list" where
  "prepare_features df0 =
     (let df = filter (\<lambda>l. positive (sq_ft l) \<and> positive (price l) \<and> positive (beds l)) df0
      in map (\<lambda>l. l\<lparr>beds := fillna (beds l) (median (map beds df)),
                     baths := fillna (baths l) (median (map baths df)),
                     year_built := fillna (year_built l) (median (map year_built df))\<rparr>) df)"

text \<open>
  The fitted scaler and forest are used through one function only, from the feature
  vector \<^verbatim>\<open>[sq_ft, beds, baths, year_built]\<close> to the predicted price. Fitting
  (\<^verbatim>\<open>StandardScaler.fit_transform\<close>, \<^verbatim>\<open>RandomForestRegressor.fit\<close>, \<^verbatim>\<open>joblib.dump\<close>) is
  library code that can raise; it is a parameter \<open>fit\<close> of the model.
\<close>

type_synonym features = "real option \<times> real option \<times> real option \<times> real option"

type_synonym model = "features \<Rightarrow> real"

definition train_model :: "(listing list \<Rightarrow> error + model) \<Rightarrow> int \<Rightarrow> string \<Rightarrow> db \<Rightarrow> error + model option" where
  "train_model fit now zc d =
     (let df0 = load_recent_listings zc now d in
      if df0 = [] then Inr None
      else
        let df = prepare_features df0 in
        if df = [] then Inr None
        else if length df < MIN_TRAIN_SIZE then Inr None
        else (case fit df of Inl e \<Rightarrow> Inl e | Inr m \<Rightarrow> Inr (Some m)))"

definition predict_price :: "model option \<Rightarrow> features \<Rightarrow> real option" where
  "predict_price m fs = (case m of None \<Rightarrow> None | Some f \<Rightarrow> Some (max (f fs) 0))"

definition calculate_deviation :: "real \<Rightarrow> real \<Rightarrow> real" where
  "calculate_deviation actual_price predicted =
     (if predicted = 0 then 0 else ((actual_price - predicted) / predicted) * 100)"

text \<open>
  The two columns \<^verbatim>\<open>is_anomaly\<close> and \<^verbatim>\<open>anomaly_type\<close> of the branch that has a model,
  from the row's \<^verbatim>\<open>deviation_percentage\<close>. Every comparison with NaN is false.
\<close>

definition ml_flags :: "real option \<Rightarrow> bool \<times> string option" where
  "ml_flags dev =
     (case dev of
        None \<Rightarrow> (False, None)
      | Some v \<Rightarrow>
          (\<bar>v\<bar> > DEVIATION_THRESHOLD,
           if v > DEVIATION_THRESHOLD then Some ''over-priced''
           else if v < - DEVIATION_THRESHOLD then Some ''under-priced'' else None))"

text \<open>
  \<^verbatim>\<open>df.groupby('property_type')['price_per_sqft'].agg(['mean', 'std'])\<close> and the merge
  on \<^verbatim>\<open>property_type\<close>.
\<close>

definition ml_group_values :: "listing list \<Rightarrow> string \<Rightarrow> real list" where
  "ml_group_values df pt = List.map_filter ppsq (filter (\<lambda>l. property_type l = Some pt) df)"

definition ml_group_stats :: "listing list \<Rightarrow> (string \<times> real option \<times> real option) list" where
  "ml_group_stats df =
     map (\<lambda>pt. (pt, mean (ml_group_values df pt), std (ml_group_values df pt)))
         (sort (remdups (List.map_filter property_type df)))"

definition ml_lookup :: "(string \<times> real option \<times> real option) list \<Rightarrow> listing
    \<Rightarrow> real option \<times> real option" where
  "ml_lookup stats l =
     (case find (\<lambda>s. property_type l = Some (fst s)) stats of
        None \<Rightarrow> (None, None) | Some s \<Rightarrow> snd s)"

definition ml_verdict :: "model option \<Rightarrow> (string \<times> real option \<times> real option) list
    \<Rightarrow> listing \<Rightarrow> int \<Rightarrow> la_row" where
  "ml_verdict m stats l t =
     (let predicted = predict_price m (sq_ft l, beds l, baths l, year_built l);
          deviation = (case predicted of None \<Rightarrow> None
                       | Some p \<Rightarrow> map_option (\<lambda>a. calculate_deviation a p) (price l));
          flags = (if m \<noteq> None then ml_flags deviation else (False, None))
      in \<lparr>la_listing_id = listing_id l, price_per_sqft = ppsq l,
          is_anomaly = fst flags, anomaly_type = snd flags,
          mean_ppsq = fst (ml_lookup stats l), std_ppsq = snd (ml_lookup stats l),
          predicted_price = predicted, deviation_percentage = deviation,
          la_dq_status = (if m \<noteq> None then Some ''PASS'' else Some ''STAT_ONLY''),
          analyzed_at = t\<rparr>)"

text \<open>
  Clock readings of one run: \<open>clock 0\<close> for the report, \<open>clock 1\<close> inside
  \<^verbatim>\<open>train_model\<close>, \<open>clock 2\<close> for the second load, \<open>clock (3 + i)\<close> for record \<open>i\<close>.
\<close>

definition ml_records :: "model option \<Rightarrow> (nat \<Rightarrow> int) \<Rightarrow> listing list \<Rightarrow> la_row list" where
  "ml_records m clock df =
     map (\<lambda>(i, l). ml_verdict m (ml_group_stats df) l (clock (3 + i))) (enumerate 0 df)"

definition pg_upsert_la_ml :: "la_row \<Rightarrow> la_row list \<Rightarrow> la_row list" where
  "pg_upsert_la_ml r T =
     (if la_listing_id r \<in> set (map la_listing_id T)
      then map (\<lambda>x. if la_listing_id x = la_listing_id r
                     then x\<lparr>price_per_sqft := price_per_sqft r, is_anomaly := is_anomaly r,
                            anomaly_type := anomaly_type r, mean_ppsq := mean_ppsq r,
                            std_ppsq := std_ppsq r, predicted_price := predicted_price r,
                            deviation_percentage := deviation_percentage r,
                            la_dq_status := la_dq_status r, analyzed_at := analyzed_at r\<rparr>
                     else x) T
      else T @ [r])"

definition store_analysis_ml :: "config \<Rightarrow> la_row list \<Rightarrow> la_row list \<Rightarrow> la_row list" where
  "store_analysis_ml cfg recs T =
     (case DB_DIALECT cfg of
        SQLite \<Rightarrow> fold sqlite_replace_la recs T
      | PostgreSQL \<Rightarrow> fold pg_upsert_la_ml recs T)"

record report =
  timestamp :: int
  r_zip_code :: string
  total_new_listings :: nat
  dq_failures :: nat
  model_trained :: bool
  ml_anomalies :: nat
  ml_opportunities :: nat
  ml_risks :: nat

text \<open>\<^verbatim>\<open>SELECT COUNT(*) ... WHERE zip_code = :zip AND dq_status != 'PASS'\<close> (NULL is not counted).\<close>

definition dq_count :: "string \<Rightarrow> db \<Rightarrow> nat" where
  "dq_count zc d =
     length (filter (\<lambda>l. zip_code l = zc \<and> dq_status l \<noteq> None \<and> dq_status l \<noteq> Some ''PASS'')
               (listings d))"

text \<open>
  The ML module's \<^verbatim>\<open>analyze_and_store\<close>. It returns the report, or the exception that
  leaves it, and the database.
\<close>

definition analyze_and_store_ml :: "config \<Rightarrow> (listing list \<Rightarrow> error + model) \<Rightarrow> (nat \<Rightarrow> int)
    \<Rightarrow> string \<Rightarrow> db \<Rightarrow> (error + report) \<times> db" where
  "analyze_and_store_ml cfg fit clock zc d =
     (let report = \<lparr>timestamp = clock 0, r_zip_code = zc, total_new_listings = 0,
                     dq_failures = dq_count zc d, model_trained = False,
                     ml_anomalies = 0, ml_opportunities = 0, ml_risks = 0\<rparr>
      in case train_model fit (clock 1) zc d of
           Inl e \<Rightarrow> (Inl e, d)
         | Inr m \<Rightarrow>
             let report = report\<lparr>model_trained := (m \<noteq> None)\<rparr>;
                 df0 = load_recent_listings zc (clock 2) d
             in if df0 = [] then (Inr report, d)
                else
                  let df = prepare_features df0;
                      records = ml_records m clock df
                  in (Inr (report\<lparr>total_new_listings := length df,
                             ml_anomalies := length (filter is_anomaly records),
                             ml_opportunities :=
                               length (filter (\<lambda>r. is_anomaly r
                                          \<and> anomaly_type r = Some ''under-priced'') records),
                             ml_risks :=
                               length (filter (\<lambda>r. is_anomaly r
                                          \<and> anomaly_type r = Some ''over-priced'') records)\<rparr>),
                      d\<lparr>listing_analysis :=
                           store_analysis_ml cfg records (listing_analysis d)\<rparr>))"

section \<open>Rounded arithmetic\<close>

text \<open>
  Whether a value lies exactly on a threshold depends on how the doubles round, so the
  records are modelled a second time with the rounding made explicit: \<open>rnd\<close> takes the
  exact result of one arithmetic operation of the source to the double that the
  operation returns, and every \<^verbatim>\<open>+\<close>, \<^verbatim>\<open>-\<close>, \<^verbatim>\<open>*\<close>, \<^verbatim>\<open>/\<close> and square root rounds once, in the
  order the source evaluates them. Of \<open>rnd\<close> only what holds of rounding to nearest is
  used: it is monotone and keeps zero. Comparisons, \<^verbatim>\<open>abs\<close>, \<^verbatim>\<open>max\<close> and negation are
  exact on doubles. The mean and the variance that pandas computes for a group, with a
  summation order of its own, are the parameters \<open>avg\<close> and \<open>var\<close>; \<^verbatim>\<open>std\<close> is the square
  root of the variance, NaN where the variance is NaN or negative. The definitions of
  the sections above are the instance with no rounding.
\<close>

definition rounding :: "(real \<Rightarrow> real) \<Rightarrow> bool" where
  "rounding rnd \<longleftrightarrow> (\<forall>x y. x \<le> y \<longrightarrow> rnd x \<le> rnd y) \<and> rnd 0 = 0"

definition ppsq_fl :: "(real \<Rightarrow> real) \<Rightarrow> listing \<Rightarrow> real option" where
  "ppsq_fl rnd l = (case price l of None \<Rightarrow> None
     | Some p \<Rightarrow> (case sq_ft l of None \<Rightarrow> None | Some a \<Rightarrow> Some (rnd (p / a))))"

definition std_fl :: "(real \<Rightarrow> real) \<Rightarrow> (real list \<Rightarrow> real option) \<Rightarrow> real list \<Rightarrow> real option" where
  "std_fl rnd var xs =
     (case var xs of None \<Rightarrow> None
      | Some v \<Rightarrow> if v < 0 then None else Some (rnd (sqrt v)))"

definition group_values_fl :: "(real \<Rightarrow> real) \<Rightarrow> listing list \<Rightarrow> string \<times> string \<Rightarrow> real list" where
  "group_values_fl rnd df k =
     List.map_filter (ppsq_fl rnd) (filter (\<lambda>l. group_key l = Some k) df)"

definition groupby_stats_fl :: "(real \<Rightarrow> real) \<Rightarrow> (real list \<Rightarrow> real option)
    \<Rightarrow> (real list \<Rightarrow> real option) \<Rightarrow> listing list \<Rightarrow> stat_row list" where
  "groupby_stats_fl rnd avg var df =
     map (\<lambda>k. \<lparr>s_zip_code = fst k, s_property_type = snd k,
                mu = avg (group_values_fl rnd df k),
                sigma = std_fl rnd var (group_values_fl rnd df k),
                n = length (group_values_fl rnd df k)\<rparr>)
         (sort (remdups (List.map_filter group_key df)))"

fun flag_row_fl :: "(real \<Rightarrow> real) \<Rightarrow> real option \<Rightarrow> real option \<Rightarrow> real option
    \<Rightarrow> bool \<times> string option" where
  "flag_row_fl rnd (Some x) (Some m) (Some s) =
     (let upper = rnd (m + rnd (THRESHOLD_MULTIPLIER * s));
          lower = rnd (m - rnd (THRESHOLD_MULTIPLIER * s))
      in if x > upper then (True, Some ''over-priced'')
         else if x < lower then (True, Some ''under-priced'')
         else (False, None))"
| "flag_row_fl rnd _ _ _ = (False, None)"

definition stat_verdict_fl :: "(real \<Rightarrow> real) \<Rightarrow> stat_row list \<Rightarrow> listing \<Rightarrow> int \<Rightarrow> la_row" where
  "stat_verdict_fl rnd stats l t =
     (let flags = flag_row_fl rnd (ppsq_fl rnd l) (row_mu stats l) (row_sigma stats l)
      in \<lparr>la_listing_id = listing_id l, price_per_sqft = ppsq_fl rnd l,
          is_anomaly = fst flags, anomaly_type = snd flags,
          mean_ppsq = row_mu stats l, std_ppsq = row_sigma stats l,
          predicted_price = None, deviation_percentage = None, la_dq_status = None,
          analyzed_at = t\<rparr>)"

definition stat_records_fl :: "(real \<Rightarrow> real) \<Rightarrow> (real list \<Rightarrow> real option)
    \<Rightarrow> (real list \<Rightarrow> real option) \<Rightarrow> (nat \<Rightarrow> int) \<Rightarrow> listing list \<Rightarrow> la_row list" where
  "stat_records_fl rnd avg var clock df =
     map (\<lambda>(i, l). stat_verdict_fl rnd (groupby_stats_fl rnd avg var df) l (clock (Suc i)))
         (enumerate 0 df)"

definition calculate_deviation_fl :: "(real \<Rightarrow> real) \<Rightarrow> real \<Rightarrow> real \<Rightarrow> real" where
  "calculate_deviation_fl rnd actual_price predicted =
     (if predicted = 0 then 0
      else rnd (rnd (rnd (actual_price - predicted) / predicted) * 100))"

definition ml_group_values_fl :: "(real \<Rightarrow> real) \<Rightarrow> listing list \<Rightarrow> string \<Rightarrow> real list" where
  "ml_group_values_fl rnd df pt =
     List.map_filter (ppsq_fl rnd) (filter (\<lambda>l. property_type l = Some pt) df)"

definition ml_group_stats_fl :: "(real \<Rightarrow> real) \<Rightarrow> (real list \<Rightarrow> real option)
    \<Rightarrow> (real list \<Rightarrow> real option) \<Rightarrow> listing list
    \<Rightarrow> (string \<times> real option \<times> real option) list" where
  "ml_group_stats_fl rnd avg var df =
     map (\<lambda>pt. (pt, avg (ml_group_values_fl rnd df pt),
                 std_fl rnd var (ml_group_values_fl rnd df pt)))
         (sort (remdups (List.map_filter property_type df)))"

definition ml_verdict_fl :: "(real \<Rightarrow> real) \<Rightarrow> model option
    \<Rightarrow> (string \<times> real option \<times> real option) list \<Rightarrow> listing \<Rightarrow> int \<Rightarrow> la_row" where
  "ml_verdict_fl rnd m stats l t =
     (let predicted = predict_price m (sq_ft l, beds l, baths l, year_built l);
          deviation = (case predicted of None \<Rightarrow> None
                       | Some p \<Rightarrow> map_option (\<lambda>a. calculate_deviation_fl rnd a p) (price l));
          flags = (if m \<noteq> None then ml_flags deviation else (False, None))
      in \<lparr>la_listing_id = listing_id l, price_per_sqft = ppsq_fl rnd l,
          is_anomaly = fst flags, anomaly_type = snd flags,
          mean_ppsq = fst (ml_lookup stats l), std_ppsq = snd (ml_lookup stats l),
          predicted_price = predicted, deviation_percentage = deviation,
          la_dq_status = (if m \<noteq> None then Some ''PASS'' else Some ''STAT_ONLY''),
          analyzed_at = t\<rparr>)"

definition ml_records_fl :: "(real \<Rightarrow> real) \<Rightarrow> (real list \<Rightarrow> real option)
    \<Rightarrow> (real list \<Rightarrow> real option) \<Rightarrow> model option \<Rightarrow> (nat \<Rightarrow> int) \<Rightarrow> listing list
    \<Rightarrow> la_row list" where
  "ml_records_fl rnd avg var m clock df =
     map (\<lambda>(i, l). ml_verdict_fl rnd m (ml_group_stats_fl rnd avg var df) l (clock (3 + i)))
         (enumerate 0 df)"

text \<open>The sample variance (\<^verbatim>\<open>ddof=1\<close>) without rounding, of which \<open>std\<close> is the root.\<close>

definition variance :: "real list \<Rightarrow> real option" where
  "variance xs = (if length xs < 2 then None
     else Some (sum_list (map (\<lambda>x. (x - sum_list xs / real (length xs))\<^sup>2) xs)
                  / real (length xs - 1)))"


section \<open>Auxiliary notions\<close>

text \<open>
  The two shapes of upsert, over any key: delete-then-append (\<^verbatim>\<open>INSERT OR REPLACE\<close>) and
  update-in-place-or-append (\<^verbatim>\<open>ON CONFLICT DO UPDATE\<close>, with \<open>u r x\<close> the row \<open>x\<close> after
  the \<^verbatim>\<open>SET\<close> clause has copied columns from \<open>r\<close>). The statements above are instances;
  the proofs about repeated runs are done once for each shape.
\<close>

definition replace_by :: "('a \<Rightarrow> 'k) \<Rightarrow> 'a \<Rightarrow> 'a list \<Rightarrow> 'a list" where
  "replace_by key r T = filter (\<lambda>x. key x \<noteq> key r) T @ [r]"

definition update_by :: "('a \<Rightarrow> 'k) \<Rightarrow> ('a \<Rightarrow> 'a \<Rightarrow> 'a) \<Rightarrow> 'a \<Rightarrow> 'a list \<Rightarrow> 'a list" where
  "update_by key u r T =
     (if key r \<in> set (map key T) then map (\<lambda>x. if key x = key r then u r x else x) T
      else T @ [r])"

definition up_to_date :: "('a \<Rightarrow> 'k) \<Rightarrow> ('a \<Rightarrow> 'a \<Rightarrow> 'a) \<Rightarrow> 'a \<Rightarrow> 'a list \<Rightarrow> bool" where
  "up_to_date key u r T \<longleftrightarrow>
     key r \<in> set (map key T) \<and> (\<forall>x\<in>set T. key x = key r \<longrightarrow> u r x = x)"

definition overwrites :: "('a \<Rightarrow> 'k) \<Rightarrow> ('a \<Rightarrow> 'a \<Rightarrow> 'a) \<Rightarrow> bool" where
  "overwrites key u \<longleftrightarrow>
     (\<forall>r x. key (u r x) = key x) \<and> (\<forall>r x. u r (u r x) = u r x) \<and> (\<forall>r. u r r = r)"

definition set_gs :: "gs_row \<Rightarrow> gs_row \<Rightarrow> gs_row" where
  "set_gs r x = x\<lparr>gs_mean_ppsq := gs_mean_ppsq r, gs_std_ppsq := gs_std_ppsq r,
                   count_listings := count_listings r\<rparr>"

definition set_la :: "la_row \<Rightarrow> la_row \<Rightarrow> la_row" where
  "set_la r x = x\<lparr>price_per_sqft := price_per_sqft r, is_anomaly := is_anomaly r,
                   anomaly_type := anomaly_type r, mean_ppsq := mean_ppsq r,
                   std_ppsq := std_ppsq r, analyzed_at := analyzed_at r\<rparr>"

text \<open>A verdict row without its analysis timestamp.\<close>

definition forget_analyzed_at :: "la_row \<Rightarrow> la_row" where
  "forget_analyzed_at r = r\<lparr>analyzed_at := 0\<rparr>"

section \<open>Example data\<close>

text \<open>
  A passing listing of 1000 square feet in zip code 12345, as the scraper pipeline stores
  it, and variations of it.
\<close>

definition house :: "string \<Rightarrow> real \<Rightarrow> listing" where
  "house i p = \<lparr>listing_id = i, price = Some p, beds = Some 3, baths = Some 2,
     sq_ft = Some 1000, year_built = Some 2010, property_type = Some ''House'',
     zip_code = ''12345'', dq_status = Some ''PASS'', scrape_timestamp = 0\<rparr>"

definition condo :: "string \<Rightarrow> real \<Rightarrow> listing" where
  "condo i p = (house i p)\<lparr>property_type := Some ''Condo''\<rparr>"

text \<open>A listing the quality gate has failed for its area (400 square feet).\<close>

definition small_flat :: listing where
  "small_flat = (house ''f1'' 100000)\<lparr>sq_ft := Some 400,
     dq_status := Some ''sq_ft (400) below minimum (500)''\<rparr>"

text \<open>Prices per square foot 150, 150, 100, 50, 550: mean 200, deviation 200, upper bound 500.\<close>

definition outlier_listings :: "listing list" where
  "outlier_listings =
     [house ''h1'' 150000, house ''h2'' 150000, house ''h3'' 100000, house ''h4'' 50000,
      house ''h5'' 550000]"

definition bulk_listings :: "nat \<Rightarrow> listing list" where
  "bulk_listings k = map (\<lambda>i. house (replicate (Suc i) CHR ''x'') 100000) [0..<k]"

definition new_db :: "listing list \<Rightarrow> db" where
  "new_db ls = \<lparr>listings = ls, group_stats = [], listing_analysis = []\<rparr>"

definition noon :: "nat \<Rightarrow> int" where
  "noon i = 43200"

definition evening :: "nat \<Rightarrow> int" where
  "evening i = 72000"

definition postgres :: config where
  "postgres = \<lparr>DB_DIALECT = PostgreSQL, gs_unique = True\<rparr>"

text \<open>
  The SQLite schema that \<^verbatim>\<open>seed_demo.ensure_tables\<close> and \<^verbatim>\<open>test_e2e.setup_db\<close> create:
  \<^verbatim>\<open>group_stats\<close> has the primary key \<^verbatim>\<open>id\<close> and no other unique constraint.
\<close>

definition sqlite_dev :: config where
  "sqlite_dev = \<lparr>DB_DIALECT = SQLite, gs_unique = False\<rparr>"

definition flat_model :: model where
  "flat_model fs = 100000"

definition failing_fit :: "listing list \<Rightarrow> error + model" where
  "failing_fit df = Inl FitError"

definition flat_fit :: "listing list \<Rightarrow> error + model" where
  "flat_fit df = Inr flat_model"

text \<open>Two listings whose prices are 15 percent above and below what \<open>flat_model\<close> predicts.\<close>

definition threshold_listings :: "listing list" where
  "threshold_listings = [house ''m1'' 115000, house ''m2'' 85000]"

text \<open>The five houses and a single condominium, which is a segment of its own.\<close>

definition mixed_listings :: "listing list" where
  "mixed_listings = outlier_listings @ [condo ''c1'' 300000]"

text \<open>The verdict row of a run without a model, for a segment with mean and deviation 200.\<close>

definition stat_only_row :: "string \<Rightarrow> real \<Rightarrow> la_row" where
  "stat_only_row i x = \<lparr>la_listing_id = i, price_per_sqft = Some x, is_anomaly = False,
      anomaly_type = None, mean_ppsq = Some 200, std_ppsq = Some 200,
      predicted_price = None, deviation_percentage = None,
      la_dq_status = Some ''STAT_ONLY'', analyzed_at = 43200\<rparr>"

text \<open>A database with one passing house at 250 per square foot, and its two result rows.\<close>

definition single_house :: db where
  "single_house = new_db [house ''h1'' 250000]"

definition single_baseline :: gs_row where
  "single_baseline = \<lparr>gs_zip_code = ''12345'', gs_property_type = ''House'', stat_date = 0,
     gs_mean_ppsq = Some 250, gs_std_ppsq = None, count_listings = 1\<rparr>"

definition single_verdict :: "int \<Rightarrow> la_row" where
  "single_verdict t = \<lparr>la_listing_id = ''h1'', price_per_sqft = Some 250, is_anomaly = False,
     anomaly_type = None, mean_ppsq = Some 250, std_ppsq = None, predicted_price = None,
     deviation_percentage = None, la_dq_status = None, analyzed_at = t\<rparr>"

text \<open>
  Passing houses with distinct identifiers at one price, and a model and a fit that
  quote 200000 for every listing.
\<close>

definition priced_listings :: "real \<Rightarrow> nat \<Rightarrow> listing list" where
  "priced_listings p k = map (\<lambda>i. house (replicate (Suc i) CHR ''x'') p) [0..<k]"

definition quoted_model :: model where
  "quoted_model fs = 200000"

definition quoted_fit :: "listing list \<Rightarrow> error + model" where
  "quoted_fit df = Inr quoted_model"

text \<open>
  Five hundred houses at 100 per square foot and one condominium at 300, and the verdict
  row the ML module stores for the condominium when the model predicts 100000.
\<close>

definition lone_condo_listings :: "listing list" where
  "lone_condo_listings = bulk_listings 500 @ [condo ''c1'' 300000]"

definition lone_condo_row :: la_row where
  "lone_condo_row = \<lparr>la_listing_id = ''c1'', price_per_sqft = Some 300, is_anomaly = True,
     anomaly_type = Some ''over-priced'', mean_ppsq = Some 300, std_ppsq = None,
     predicted_price = Some 100000, deviation_percentage = Some 200,
     la_dq_status = Some ''PASS'', analyzed_at = 43200\<rparr>"


section \<open>Properties\<close>

subsection \<open>Upserts\<close>

lemma fold_replace_by:
  "distinct (map key rs) \<Longrightarrow>
   fold (replace_by key) rs T = filter (\<lambda>x. key x \<notin> set (map key rs)) T @ rs"
proof (induction rs arbitrary: T)
  case Nil
  then show ?case by simp
next
  case (Cons r rs)
  have "filter (\<lambda>x. key x \<notin> set (map key rs)) [r] = [r]"
    using Cons.prems by simp
  moreover have "filter (\<lambda>x. key x \<notin> set (map key rs)) (filter (\<lambda>x. key x \<noteq> key r) T)
      = filter (\<lambda>x. key x \<notin> set (map key (r # rs))) T"
    by (auto intro: filter_cong)
  ultimately show ?case
    using Cons by (simp add: replace_by_def)
qed

lemma fold_replace_by_idem:
  assumes "distinct (map key rs)"
  shows "fold (replace_by key) rs (fold (replace_by key) rs T) = fold (replace_by key) rs T"
proof -
  have "filter (\<lambda>x. key x \<notin> set (map key rs)) rs = []"
    by (simp add: filter_empty_conv)
  then show ?thesis
    by (simp add: fold_replace_by[OF assms])
qed

lemma distinct_fold_replace_by:
  assumes "distinct (map key rs)" "distinct (map key T)"
  shows "distinct (map key (fold (replace_by key) rs T))"
  using assms by (auto simp: fold_replace_by distinct_map_filter)

lemma map_key_update_by:
  "\<forall>r x. key (u r x) = key x \<Longrightarrow>
   map key (update_by key u r T) = (if key r \<in> set (map key T) then map key T else map key T @ [key r])"
  by (auto simp: update_by_def intro: map_idI)

lemma distinct_update_by:
  "\<forall>r x. key (u r x) = key x \<Longrightarrow> distinct (map key T) \<Longrightarrow> distinct (map key (update_by key u r T))"
  by (simp add: map_key_update_by)

lemma distinct_fold_update_by:
  "\<forall>r x. key (u r x) = key x \<Longrightarrow> distinct (map key T) \<Longrightarrow>
   distinct (map key (fold (update_by key u) rs T))"
  by (induction rs arbitrary: T) (simp_all add: distinct_update_by)

lemma up_to_date_self:
  assumes "overwrites key u"
  shows "up_to_date key u r (update_by key u r T)"
proof -
  from assms have k: "\<forall>r x. key (u r x) = key x" and i: "\<forall>r x. u r (u r x) = u r x"
    and s: "\<forall>r. u r r = r"
    by (simp_all add: overwrites_def)
  have "key r \<in> set (map key (update_by key u r T))"
    by (simp add: map_key_update_by[OF k])
  moreover have "\<forall>x\<in>set (update_by key u r T). key x = key r \<longrightarrow> u r x = x"
  proof (cases "key r \<in> set (map key T)")
    case True
    then show ?thesis using k i by (auto simp: update_by_def)
  next
    case False
    then have "\<forall>x\<in>set T. key x \<noteq> key r" by (metis image_eqI list.set_map)
    with False show ?thesis using s by (simp add: update_by_def)
  qed
  ultimately show ?thesis by (simp add: up_to_date_def)
qed

lemma up_to_date_other:
  assumes "overwrites key u" "key r' \<noteq> key r" "up_to_date key u r T"
  shows "up_to_date key u r (update_by key u r' T)"
proof -
  from assms(1) have k: "\<forall>r x. key (u r x) = key x"
    by (simp add: overwrites_def)
  from assms(3) have m: "key r \<in> set (map key T)"
    and e: "\<forall>x\<in>set T. key x = key r \<longrightarrow> u r x = x"
    by (simp_all add: up_to_date_def)
  have "key r \<in> set (map key (update_by key u r' T))"
    using m by (simp add: map_key_update_by[OF k])
  moreover have "\<forall>x\<in>set (update_by key u r' T). key x = key r \<longrightarrow> u r x = x"
    using k e assms(2) by (auto simp: update_by_def)
  ultimately show ?thesis by (simp add: up_to_date_def)
qed

lemma update_by_up_to_date:
  "up_to_date key u r T \<Longrightarrow> update_by key u r T = T"
  unfolding up_to_date_def update_by_def by (auto intro: map_idI)

lemma fold_update_by_up_to_date:
  "\<forall>r\<in>set rs. up_to_date key u r T \<Longrightarrow> fold (update_by key u) rs T = T"
  by (induction rs) (simp_all add: update_by_up_to_date)

lemma up_to_date_fold:
  assumes "overwrites key u"
  shows "distinct (map key rs) \<Longrightarrow>
     \<forall>r\<in>D. up_to_date key u r T \<and> key r \<notin> set (map key rs) \<Longrightarrow>
     \<forall>r\<in>D \<union> set rs. up_to_date key u r (fold (update_by key u) rs T)"
proof (induction rs arbitrary: T D)
  case Nil
  then show ?case by simp
next
  case (Cons a rs)
  have "\<forall>r\<in>insert a D. up_to_date key u r (update_by key u a T) \<and> key r \<notin> set (map key rs)"
  proof
    fix r assume r: "r \<in> insert a D"
    show "up_to_date key u r (update_by key u a T) \<and> key r \<notin> set (map key rs)"
    proof (cases "key r = key a")
      case True
      have "up_to_date key u a (update_by key u a T)" by (rule up_to_date_self[OF assms])
      then have "up_to_date key u r (update_by key u a T)"
      proof -
        from r True Cons.prems(2) have "r = a" by auto
        then show ?thesis using \<open>up_to_date key u a (update_by key u a T)\<close> by simp
      qed
      moreover have "key r \<notin> set (map key rs)" using True Cons.prems(1) by simp
      ultimately show ?thesis by simp
    next
      case False
      with r have "r \<in> D" by auto
      with Cons.prems(2) have "up_to_date key u r T" "key r \<notin> set (map key rs)" by auto
      with False show ?thesis using up_to_date_other[OF assms] by metis
    qed
  qed
  moreover have "distinct (map key rs)" using Cons.prems(1) by simp
  ultimately have "\<forall>r\<in>insert a D \<union> set rs. up_to_date key u r (fold (update_by key u) rs (update_by key u a T))"
    by (rule Cons.IH[rotated])
  then show ?case by simp
qed

lemma fold_update_by_idem:
  assumes "overwrites key u" "distinct (map key rs)"
  shows "fold (update_by key u) rs (fold (update_by key u) rs T) = fold (update_by key u) rs T"
proof -
  have "\<forall>r\<in>{} \<union> set rs. up_to_date key u r (fold (update_by key u) rs T)"
    by (rule up_to_date_fold[OF assms]) simp
  then show ?thesis by (simp add: fold_update_by_up_to_date)
qed

lemma map_replace_by:
  "\<forall>x. key (g x) = key x \<Longrightarrow> map g (replace_by key r T) = replace_by key (g r) (map g T)"
  by (simp add: replace_by_def filter_map comp_def)

lemma map_update_by:
  "\<forall>x. key (g x) = key x \<Longrightarrow> \<forall>r x. g (u r x) = u (g r) (g x) \<Longrightarrow>
   map g (update_by key u r T) = update_by key u (g r) (map g T)"
  by (auto simp: update_by_def image_iff)

lemma map_fold_commute:
  "\<forall>r T. map g (f r T) = f (g r) (map g T) \<Longrightarrow> map g (fold f rs T) = fold f (map g rs) (map g T)"
  by (induction rs arbitrary: T) simp_all

subsection \<open>Verdict records\<close>

lemma flag_row_consistent: "fst (flag_row x m s) \<longleftrightarrow> snd (flag_row x m s) \<noteq> None"
  by (cases "(x, m, s)" rule: flag_row.cases) (simp_all add: Let_def)

lemma flag_row_range: "snd (flag_row x m s) \<in> {None, Some ''over-priced'', Some ''under-priced''}"
  by (cases "(x, m, s)" rule: flag_row.cases) (simp_all add: Let_def)

lemma ml_flags_consistent: "fst (ml_flags v) \<longleftrightarrow> snd (ml_flags v) \<noteq> None"
  by (cases v) (auto simp: ml_flags_def DEVIATION_THRESHOLD_def)

lemma ml_flags_range: "snd (ml_flags v) \<in> {None, Some ''over-priced'', Some ''under-priced''}"
  by (cases v) (auto simp: ml_flags_def)

lemma in_stat_records:
  "r \<in> set (stat_records stats clock df) \<Longrightarrow> \<exists>l t. l \<in> set df \<and> r = stat_verdict stats l t"
proof -
  assume "r \<in> set (stat_records stats clock df)"
  then obtain i where i: "i < length df" and r: "r = stat_verdict stats (df ! i) (clock (Suc i))"
    by (auto simp: stat_records_def in_set_enumerate_eq)
  from i have "df ! i \<in> set df" by simp
  with r show ?thesis by blast
qed

lemma in_ml_records:
  "r \<in> set (ml_records m clock df) \<Longrightarrow> \<exists>l t. l \<in> set df \<and> r = ml_verdict m (ml_group_stats df) l t"
proof -
  assume "r \<in> set (ml_records m clock df)"
  then obtain i where i: "i < length df"
    and r: "r = ml_verdict m (ml_group_stats df) (df ! i) (clock (3 + i))"
    by (auto simp: ml_records_def in_set_enumerate_eq)
  from i have "df ! i \<in> set df" by simp
  with r show ?thesis by blast
qed

subsection \<open>Threshold boundary\<close>

text \<open>
  Claim C2, as stated: with mean 100, standard deviation 10 and multiplier 1.5, a
  price per area of exactly 115 is over-priced, 114.999 is normal, exactly 85 is
  under-priced and 85.001 is normal. The code compares strictly, so the first and the
  third part fail.
\<close>

theorem threshold_boundary_counterexample:
  "\<not> (flag_row (Some 115) (Some 100) (Some 10) = (True, Some ''over-priced'')
      \<and> flag_row (Some 114.999) (Some 100) (Some 10) = (False, None)
      \<and> flag_row (Some 85) (Some 100) (Some 10) = (True, Some ''under-priced'')
      \<and> flag_row (Some 85.001) (Some 100) (Some 10) = (False, None))"
  by (simp add: THRESHOLD_MULTIPLIER_def)

text \<open>
  Claim C2, amended: with mean 100, standard deviation 10 and multiplier 1.5, the prices
  per area 115, 114.999, 85 and 85.001 are all normal; every value strictly above 115 is
  over-priced and every value strictly below 85 is under-priced.
\<close>

theorem threshold_boundary:
  "flag_row (Some 115) (Some 100) (Some 10) = (False, None)
   \<and> flag_row (Some 114.999) (Some 100) (Some 10) = (False, None)
   \<and> flag_row (Some 85) (Some 100) (Some 10) = (False, None)
   \<and> flag_row (Some 85.001) (Some 100) (Some 10) = (False, None)
   \<and> (\<forall>x. 115 < x \<longrightarrow> flag_row (Some x) (Some 100) (Some 10) = (True, Some ''over-priced''))
   \<and> (\<forall>x. x < 85 \<longrightarrow> flag_row (Some x) (Some 100) (Some 10) = (True, Some ''under-priced''))"
  by (simp add: THRESHOLD_MULTIPLIER_def)

theorem threshold_boundary_witness:
  "(115::real) < 115.001 \<and> (84.999::real) < 85
   \<and> flag_row (Some 115.001) (Some 100) (Some 10) = (True, Some ''over-priced'')
   \<and> flag_row (Some 84.999) (Some 100) (Some 10) = (True, Some ''under-priced'')"
proof -
  have h1: "(115::real) < 115.001" and h2: "(84.999::real) < 85" by simp_all
  from threshold_boundary
  have a: "\<forall>x. 115 < x \<longrightarrow> flag_row (Some x) (Some 100) (Some 10) = (True, Some ''over-priced'')"
    and b: "\<forall>x. x < 85 \<longrightarrow> flag_row (Some x) (Some 100) (Some 10) = (True, Some ''under-priced'')"
    by blast+
  from a h1 b h2 show ?thesis by blast
qed

subsection \<open>Segment statistics\<close>

lemma sqrt_40000: "sqrt 40000 = 200"
  using real_sqrt_abs [of 200] by simp


subsection \<open>Minimum group size\<close>

lemma set_map_filter: "set (List.map_filter f xs) = {y. \<exists>x\<in>set xs. f x = Some y}"
  by (induction xs) (auto split: option.splits)

lemma find_groupby:
  "k \<in> set ks \<Longrightarrow>
   find (\<lambda>s. Some k = Some (s_zip_code s, s_property_type s))
     (map (\<lambda>k. \<lparr>s_zip_code = fst k, s_property_type = snd k, mu = f k, sigma = g k, n = h k\<rparr>) ks)
   = Some \<lparr>s_zip_code = fst k, s_property_type = snd k, mu = f k, sigma = g k, n = h k\<rparr>"
  by (induction ks) auto

lemma lookup_groupby_stats:
  assumes "l \<in> set df" "group_key l = Some k"
  shows "lookup_stats (groupby_stats df) l =
     Some \<lparr>s_zip_code = fst k, s_property_type = snd k, mu = mean (group_values df k),
           sigma = std (group_values df k), n = length (group_values df k)\<rparr>"
proof -
  from assms have "k \<in> set (sort (remdups (List.map_filter group_key df)))"
    by (force simp: set_map_filter)
  then show ?thesis
    unfolding lookup_stats_def groupby_stats_def assms(2) by (rule find_groupby)
qed

lemma std_small: "length xs < 2 \<Longrightarrow> std xs = None"
  by (simp add: std_def)

lemma flag_row_no_sigma: "flag_row x m None = (False, None)"
  by (cases "(x, m, None :: real option)" rule: flag_row.cases) simp_all

lemma analyze_and_store_returns:
  assumes "l \<in> set (stat_frame zc d)" "DB_DIALECT cfg = SQLite \<or> gs_unique cfg"
  shows "fst (analyze_and_store cfg clock zc d) = None"
proof -
  from assms(1) have "stat_frame zc d \<noteq> []" by auto
  moreover from this have "select_zip zc d \<noteq> []" by (auto simp: stat_frame_def)
  ultimately show ?thesis
    using assms(2)
    by (cases "DB_DIALECT cfg")
       (auto simp: analyze_and_store_def Let_def store_group_stats_def split: sum.splits)
qed

lemma mixed_frame: "stat_frame ''12345'' (new_db mixed_listings) = mixed_listings"
  by (simp add: stat_frame_def select_zip_def new_db_def mixed_listings_def outlier_listings_def
      house_def condo_def positive_def)

lemma mixed_condo_values:
  "group_values mixed_listings (''12345'', ''Condo'') = [300]"
  by (simp add: group_values_def mixed_listings_def outlier_listings_def house_def condo_def
      group_key_def ppsq_def)

subsection \<open>Flag and category\<close>

text \<open>
  Claim C10: in every verdict record either module builds, \<open>is_anomaly\<close> is true exactly
  when \<open>anomaly_type\<close> is not null, and the category is null, over-priced or
  under-priced.
\<close>

theorem verdict_flag_and_category_agree:
  "(\<forall>r\<in>set (stat_records stats clock df).
      (is_anomaly r \<longleftrightarrow> anomaly_type r \<noteq> None)
      \<and> anomaly_type r \<in> {None, Some ''over-priced'', Some ''under-priced''})
   \<and> (\<forall>r\<in>set (ml_records m clock' df').
      (is_anomaly r \<longleftrightarrow> anomaly_type r \<noteq> None)
      \<and> anomaly_type r \<in> {None, Some ''over-priced'', Some ''under-priced''})"
proof (intro conjI ballI)
  fix r assume "r \<in> set (stat_records stats clock df)"
  then obtain l t where r: "r = stat_verdict stats l t" using in_stat_records by blast
  show "is_anomaly r \<longleftrightarrow> anomaly_type r \<noteq> None"
    using flag_row_consistent by (simp add: r stat_verdict_def Let_def)
  show "anomaly_type r \<in> {None, Some ''over-priced'', Some ''under-priced''}"
    using flag_row_range by (simp add: r stat_verdict_def Let_def)
next
  fix r assume "r \<in> set (ml_records m clock' df')"
  then obtain l t where r: "r = ml_verdict m (ml_group_stats df') l t" using in_ml_records by blast
  show "is_anomaly r \<longleftrightarrow> anomaly_type r \<noteq> None"
    using ml_flags_consistent by (simp add: r ml_verdict_def Let_def)
  show "anomaly_type r \<in> {None, Some ''over-priced'', Some ''under-priced''}"
    using ml_flags_range by (simp add: r ml_verdict_def Let_def)
qed

lemma groupby_outlier:
  "groupby_stats outlier_listings =
     [\<lparr>s_zip_code = ''12345'', s_property_type = ''House'', mu = Some 200, sigma = Some 200, n = 5\<rparr>]"
  by (simp add: groupby_stats_def outlier_listings_def house_def group_key_def
      group_values_def ppsq_def mean_def std_def sqrt_40000)

lemma outlier_record:
  "stat_verdict (groupby_stats outlier_listings) (house ''h5'' 550000) 43200 =
     \<lparr>la_listing_id = ''h5'', price_per_sqft = Some 550, is_anomaly = True,
      anomaly_type = Some ''over-priced'',
      mean_ppsq = Some 200, std_ppsq = Some 200, predicted_price = None,
      deviation_percentage = None, la_dq_status = None, analyzed_at = 43200\<rparr>"
  by (simp add: groupby_outlier stat_verdict_def row_mu_def row_sigma_def lookup_stats_def
      house_def group_key_def ppsq_def THRESHOLD_MULTIPLIER_def)

lemma outlier_record_mem:
  "stat_verdict (groupby_stats outlier_listings) (house ''h5'' 550000) 43200
     \<in> set (stat_records (groupby_stats outlier_listings) noon outlier_listings)"
  by (simp add: stat_records_def outlier_listings_def noon_def enumerate_eq_zip upt_rec)

lemma threshold_record2_mem:
  "ml_verdict (Some flat_model) (ml_group_stats threshold_listings) (house ''m2'' 85000) 43200
     \<in> set (ml_records (Some flat_model) noon threshold_listings)"
  by (simp add: ml_records_def threshold_listings_def noon_def enumerate_eq_zip upt_rec)

theorem verdict_flag_and_category_agree_witness:
  "(let r = stat_verdict (groupby_stats outlier_listings) (house ''h5'' 550000) 43200
    in r \<in> set (stat_records (groupby_stats outlier_listings) noon outlier_listings)
       \<and> is_anomaly r \<and> anomaly_type r = Some ''over-priced'')
   \<and> (let q = ml_verdict (Some flat_model) (ml_group_stats threshold_listings)
                 (house ''m2'' 85000) 43200
       in q \<in> set (ml_records (Some flat_model) noon threshold_listings)
          \<and> (is_anomaly q \<longleftrightarrow> anomaly_type q \<noteq> None))"
proof -
  let ?r = "stat_verdict (groupby_stats outlier_listings) (house ''h5'' 550000) 43200"
  let ?q = "ml_verdict (Some flat_model) (ml_group_stats threshold_listings)
              (house ''m2'' 85000) 43200"
  note t = verdict_flag_and_category_agree
    [of "groupby_stats outlier_listings" noon outlier_listings "Some flat_model" noon
        threshold_listings]
  from t outlier_record_mem have "is_anomaly ?r \<longleftrightarrow> anomaly_type ?r \<noteq> None" by blast
  moreover have "anomaly_type ?r = Some ''over-priced''" by (simp add: outlier_record)
  ultimately have "is_anomaly ?r" by simp
  moreover from t threshold_record2_mem have "is_anomaly ?q \<longleftrightarrow> anomaly_type ?q \<noteq> None" by blast
  ultimately show ?thesis
    using outlier_record_mem threshold_record2_mem \<open>anomaly_type ?r = Some ''over-priced''\<close>
    by (simp add: Let_def)
qed

subsection \<open>Model gating\<close>

lemma prepare_features_Nil: "prepare_features [] = []"
  by (simp add: prepare_features_def)

lemma train_model_below:
  assumes "length (prepare_features (load_recent_listings zc now d)) < MIN_TRAIN_SIZE"
  shows "train_model fit now zc d = Inr None"
  using assms by (simp add: train_model_def Let_def)

lemma train_model_reached:
  assumes "MIN_TRAIN_SIZE \<le> length (prepare_features (load_recent_listings zc now d))"
  shows "train_model fit now zc d =
     (case fit (prepare_features (load_recent_listings zc now d)) of
        Inl e \<Rightarrow> Inl e | Inr m \<Rightarrow> Inr (Some m))"
proof -
  from assms have "prepare_features (load_recent_listings zc now d) \<noteq> []"
    by (auto simp: MIN_TRAIN_SIZE_def)
  moreover from this have "load_recent_listings zc now d \<noteq> []"
    using prepare_features_Nil by metis
  ultimately show ?thesis using assms by (simp add: train_model_def Let_def)
qed

lemma analyze_and_store_ml_raises:
  "train_model fit (clock 1) zc d = Inl e \<Longrightarrow> analyze_and_store_ml cfg fit clock zc d = (Inl e, d)"
  by (simp add: analyze_and_store_ml_def)

lemma analyze_and_store_ml_report:
  assumes "train_model fit (clock 1) zc d = Inr m"
  shows "\<exists>rep. fst (analyze_and_store_ml cfg fit clock zc d) = Inr rep
           \<and> model_trained rep = (m \<noteq> None)"
  using assms by (simp add: analyze_and_store_ml_def Let_def)

lemma bulk_recent:
  "load_recent_listings ''12345'' 43200 (new_db (bulk_listings k)) = bulk_listings k"
  by (simp add: load_recent_listings_def new_db_def bulk_listings_def house_def)

lemma bulk_prepared_length:
  "length (prepare_features (load_recent_listings ''12345'' 43200 (new_db (bulk_listings k)))) = k"
proof -
  have "\<forall>l\<in>set (bulk_listings k). positive (sq_ft l) \<and> positive (price l) \<and> positive (beds l)"
    by (simp add: bulk_listings_def house_def positive_def)
  then have "filter (\<lambda>l. positive (sq_ft l) \<and> positive (price l) \<and> positive (beds l))
      (bulk_listings k) = bulk_listings k"
    by (rule filter_True)
  then show ?thesis
    by (simp add: bulk_recent prepare_features_def Let_def) (simp add: bulk_listings_def)
qed

text \<open>
  Claim C4, as stated: the minimum training size defaults to a four-figure count; below it
  \<^verbatim>\<open>train_model\<close> returns no model and the summary has \<open>model_trained = False\<close>, at or
  above it training is attempted. The constant is 500: a population of exactly 500
  prepared rows, below every four-figure threshold, is trained.
\<close>

theorem model_gating_counterexample:
  "length (prepare_features (load_recent_listings ''12345'' 43200 (new_db (bulk_listings 500))))
     = 500
   \<and> (500::nat) < 1000
   \<and> train_model flat_fit 43200 ''12345'' (new_db (bulk_listings 500)) = Inr (Some flat_model)
   \<and> \<not> (1000 \<le> MIN_TRAIN_SIZE \<and> MIN_TRAIN_SIZE \<le> 9999)"
proof -
  have l: "length (prepare_features (load_recent_listings ''12345'' 43200
      (new_db (bulk_listings 500)))) = 500"
    by (rule bulk_prepared_length)
  then have "MIN_TRAIN_SIZE \<le> length (prepare_features (load_recent_listings ''12345'' 43200
      (new_db (bulk_listings 500))))"
    by (simp add: MIN_TRAIN_SIZE_def)
  then have "train_model flat_fit 43200 ''12345'' (new_db (bulk_listings 500))
      = Inr (Some flat_model)"
    by (simp add: train_model_reached flat_fit_def)
  with l show ?thesis by (simp add: MIN_TRAIN_SIZE_def)
qed

text \<open>
  Claim C4, amended: the minimum training size is 500. When fewer prepared,
  quality-passing rows are available, \<^verbatim>\<open>train_model\<close> returns no model and the run
  returns a summary with \<open>model_trained = False\<close>; from 500 rows on, the fit is attempted
  and its outcome is the outcome of \<^verbatim>\<open>train_model\<close>.
\<close>

theorem model_gating:
  "MIN_TRAIN_SIZE = 500
   \<and> (length (prepare_features (load_recent_listings zc (clock 1) d)) < MIN_TRAIN_SIZE
        \<longrightarrow> train_model fit (clock 1) zc d = Inr None
            \<and> (\<exists>rep. fst (analyze_and_store_ml cfg fit clock zc d) = Inr rep
                   \<and> \<not> model_trained rep))
   \<and> (MIN_TRAIN_SIZE \<le> length (prepare_features (load_recent_listings zc (clock 1) d))
        \<longrightarrow> train_model fit (clock 1) zc d =
             (case fit (prepare_features (load_recent_listings zc (clock 1) d)) of
                Inl e \<Rightarrow> Inl e | Inr m \<Rightarrow> Inr (Some m)))"
proof (intro conjI impI)
  show "MIN_TRAIN_SIZE = 500" by (simp add: MIN_TRAIN_SIZE_def)
next
  assume a: "length (prepare_features (load_recent_listings zc (clock 1) d)) < MIN_TRAIN_SIZE"
  then show t: "train_model fit (clock 1) zc d = Inr None" by (rule train_model_below)
  from t analyze_and_store_ml_report [of fit clock zc d None cfg]
  show "\<exists>rep. fst (analyze_and_store_ml cfg fit clock zc d) = Inr rep \<and> \<not> model_trained rep"
    by simp
next
  assume "MIN_TRAIN_SIZE \<le> length (prepare_features (load_recent_listings zc (clock 1) d))"
  then show "train_model fit (clock 1) zc d =
             (case fit (prepare_features (load_recent_listings zc (clock 1) d)) of
                Inl e \<Rightarrow> Inl e | Inr m \<Rightarrow> Inr (Some m))"
    by (rule train_model_reached)
qed

theorem model_gating_witness:
  "length (prepare_features (load_recent_listings ''12345'' (noon 1) (new_db (bulk_listings 499))))
     < MIN_TRAIN_SIZE
   \<and> train_model flat_fit (noon 1) ''12345'' (new_db (bulk_listings 499)) = Inr None
   \<and> (\<exists>rep. fst (analyze_and_store_ml postgres flat_fit noon ''12345''
                    (new_db (bulk_listings 499))) = Inr rep \<and> \<not> model_trained rep)
   \<and> MIN_TRAIN_SIZE
       \<le> length (prepare_features (load_recent_listings ''12345'' (noon 1) (new_db (bulk_listings 500))))
   \<and> train_model flat_fit (noon 1) ''12345'' (new_db (bulk_listings 500)) = Inr (Some flat_model)"
proof -
  have h1: "length (prepare_features (load_recent_listings ''12345'' (noon 1)
      (new_db (bulk_listings 499)))) < MIN_TRAIN_SIZE"
    by (simp add: noon_def bulk_prepared_length MIN_TRAIN_SIZE_def)
  have h2: "MIN_TRAIN_SIZE \<le> length (prepare_features (load_recent_listings ''12345'' (noon 1)
      (new_db (bulk_listings 500))))"
    by (simp add: noon_def bulk_prepared_length MIN_TRAIN_SIZE_def)
  note a = model_gating [of "''12345''" noon "new_db (bulk_listings 499)" flat_fit postgres]
  note b = model_gating [of "''12345''" noon "new_db (bulk_listings 500)" flat_fit postgres]
  from a h1 have "train_model flat_fit (noon 1) ''12345'' (new_db (bulk_listings 499)) = Inr None"
    and "\<exists>rep. fst (analyze_and_store_ml postgres flat_fit noon ''12345''
                    (new_db (bulk_listings 499))) = Inr rep \<and> \<not> model_trained rep"
    by blast+
  moreover from b h2
  have "train_model flat_fit (noon 1) ''12345'' (new_db (bulk_listings 500)) =
     (case flat_fit (prepare_features (load_recent_listings ''12345'' (noon 1)
        (new_db (bulk_listings 500)))) of Inl e \<Rightarrow> Inl e | Inr m \<Rightarrow> Inr (Some m))"
    by blast
  then have "train_model flat_fit (noon 1) ''12345'' (new_db (bulk_listings 500))
     = Inr (Some flat_model)"
    by (simp add: flat_fit_def)
  ultimately show ?thesis using h1 h2 by blast
qed

subsection \<open>Training failures\<close>

lemma train_model_Inl_iff:
  "train_model fit now zc d = Inl e \<longleftrightarrow>
     MIN_TRAIN_SIZE \<le> length (prepare_features (load_recent_listings zc now d))
     \<and> fit (prepare_features (load_recent_listings zc now d)) = Inl e"
proof (cases "length (prepare_features (load_recent_listings zc now d)) < MIN_TRAIN_SIZE")
  case True
  then show ?thesis by (simp add: train_model_below)
next
  case False
  then have "MIN_TRAIN_SIZE \<le> length (prepare_features (load_recent_listings zc now d))"
    by simp
  then show ?thesis by (simp add: train_model_reached split: sum.splits)
qed

lemma failing_fit_raises:
  "train_model failing_fit (noon 1) ''12345'' (new_db (bulk_listings 500)) = Inl FitError"
  by (simp add: train_model_Inl_iff noon_def bulk_prepared_length MIN_TRAIN_SIZE_def
      failing_fit_def)

lemma small_sample_declines:
  "train_model failing_fit (noon 1) ''12345'' (new_db (bulk_listings 499)) = Inr None"
  by (rule train_model_below) (simp add: noon_def bulk_prepared_length MIN_TRAIN_SIZE_def)

text \<open>
  Claim C6, as stated: an exception raised while the model is fitted is caught inside the
  engine and the run completes with its summary. Neither \<^verbatim>\<open>train_model\<close> nor
  \<^verbatim>\<open>analyze_and_store\<close> has a handler: with 500 eligible rows and a fit that raises, the
  exception leaves \<^verbatim>\<open>analyze_and_store\<close> and no summary is returned.
\<close>

theorem training_failure_counterexample:
  "analyze_and_store_ml postgres failing_fit noon ''12345'' (new_db (bulk_listings 500))
     = (Inl FitError, new_db (bulk_listings 500))
   \<and> \<not> (\<exists>rep. fst (analyze_and_store_ml postgres failing_fit noon ''12345''
                       (new_db (bulk_listings 500))) = Inr rep)"
proof -
  have "analyze_and_store_ml postgres failing_fit noon ''12345'' (new_db (bulk_listings 500))
     = (Inl FitError, new_db (bulk_listings 500))"
    using failing_fit_raises by (rule analyze_and_store_ml_raises)
  then show ?thesis by simp
qed

text \<open>
  Claim C6, amended: an exception raised by the fit leaves \<^verbatim>\<open>train_model\<close> and
  \<^verbatim>\<open>analyze_and_store\<close> unchanged, before anything is stored and without a summary; it
  can only arise once 500 prepared rows are available. Only when \<^verbatim>\<open>train_model\<close>
  declines and returns no model does the run complete with \<open>model_trained = False\<close>.
\<close>

theorem training_failure_propagates:
  "(train_model fit (clock 1) zc d = Inl e
      \<longrightarrow> analyze_and_store_ml cfg fit clock zc d = (Inl e, d))
   \<and> (train_model fit (clock 1) zc d = Inl e \<longleftrightarrow>
        MIN_TRAIN_SIZE \<le> length (prepare_features (load_recent_listings zc (clock 1) d))
        \<and> fit (prepare_features (load_recent_listings zc (clock 1) d)) = Inl e)
   \<and> (train_model fit (clock 1) zc d = Inr None
        \<longrightarrow> (\<exists>rep. fst (analyze_and_store_ml cfg fit clock zc d) = Inr rep
                 \<and> \<not> model_trained rep))"
proof (intro conjI impI)
  assume "train_model fit (clock 1) zc d = Inl e"
  then show "analyze_and_store_ml cfg fit clock zc d = (Inl e, d)"
    by (rule analyze_and_store_ml_raises)
next
  show "train_model fit (clock 1) zc d = Inl e \<longleftrightarrow>
        MIN_TRAIN_SIZE \<le> length (prepare_features (load_recent_listings zc (clock 1) d))
        \<and> fit (prepare_features (load_recent_listings zc (clock 1) d)) = Inl e"
    by (rule train_model_Inl_iff)
next
  assume t: "train_model fit (clock 1) zc d = Inr None"
  from t analyze_and_store_ml_report [of fit clock zc d None cfg]
  show "\<exists>rep. fst (analyze_and_store_ml cfg fit clock zc d) = Inr rep \<and> \<not> model_trained rep"
    by simp
qed

theorem training_failure_propagates_witness:
  "train_model failing_fit (noon 1) ''12345'' (new_db (bulk_listings 500)) = Inl FitError
   \<and> analyze_and_store_ml postgres failing_fit noon ''12345'' (new_db (bulk_listings 500))
       = (Inl FitError, new_db (bulk_listings 500))
   \<and> train_model failing_fit (noon 1) ''12345'' (new_db (bulk_listings 499)) = Inr None
   \<and> (\<exists>rep. fst (analyze_and_store_ml postgres failing_fit noon ''12345''
                    (new_db (bulk_listings 499))) = Inr rep \<and> \<not> model_trained rep)"
proof -
  note a = training_failure_propagates
    [of failing_fit noon "''12345''" "new_db (bulk_listings 500)" FitError postgres]
  note b = training_failure_propagates
    [of failing_fit noon "''12345''" "new_db (bulk_listings 499)" FitError postgres]
  from a failing_fit_raises
  have "analyze_and_store_ml postgres failing_fit noon ''12345'' (new_db (bulk_listings 500))
       = (Inl FitError, new_db (bulk_listings 500))"
    by blast
  moreover from b small_sample_declines
  have "\<exists>rep. fst (analyze_and_store_ml postgres failing_fit noon ''12345''
                    (new_db (bulk_listings 499))) = Inr rep \<and> \<not> model_trained rep"
    by blast
  ultimately show ?thesis using failing_fit_raises small_sample_declines by blast
qed

subsection \<open>Runs without a model\<close>

lemma ml_records_without_model:
  "r \<in> set (ml_records None clock df) \<Longrightarrow>
     \<not> is_anomaly r \<and> anomaly_type r = None \<and> la_dq_status r = Some ''STAT_ONLY''"
  by (auto dest!: in_ml_records simp: ml_verdict_def Let_def)

lemma outlier_prepared:
  "prepare_features (load_recent_listings ''12345'' 43200 (new_db outlier_listings))
     = outlier_listings"
  by (simp add: load_recent_listings_def new_db_def outlier_listings_def house_def
      prepare_features_def positive_def fillna_def Let_def)

lemma outlier_declined:
  "train_model flat_fit 43200 ''12345'' (new_db outlier_listings) = Inr None"
proof (rule train_model_below)
  have "length outlier_listings = 5" by (simp add: outlier_listings_def)
  then show "length (prepare_features (load_recent_listings ''12345'' 43200
      (new_db outlier_listings))) < MIN_TRAIN_SIZE"
    by (simp add: outlier_prepared MIN_TRAIN_SIZE_def)
qed

lemma ml_stats_outlier:
  "ml_group_stats outlier_listings = [(''House'', Some 200, Some 200)]"
  by (simp add: ml_group_stats_def outlier_listings_def house_def ml_group_values_def
      ppsq_def mean_def std_def sqrt_40000)

lemma new_db_sel:
  "listings (new_db ls) = ls" "group_stats (new_db ls) = []" "listing_analysis (new_db ls) = []"
  by (simp_all add: new_db_def)

lemma map_enumerate_const:
  "map (\<lambda>(i, l). g l) (enumerate k xs) = map g xs"
  by (induction xs arbitrary: k) simp_all

lemma ml_records_noon:
  "ml_records m noon df = map (\<lambda>l. ml_verdict m (ml_group_stats df) l 43200) df"
  by (simp add: ml_records_def noon_def map_enumerate_const)

lemma outlier_ml_records:
  "ml_records None noon outlier_listings =
     [stat_only_row ''h1'' 150, stat_only_row ''h2'' 150, stat_only_row ''h3'' 100,
      stat_only_row ''h4'' 50, stat_only_row ''h5'' 550]"
  unfolding ml_records_noon ml_stats_outlier
  by (simp add: outlier_listings_def stat_only_row_def ml_verdict_def ml_lookup_def
      predict_price_def house_def ppsq_def)

lemma outlier_stored:
  "store_analysis_ml postgres
     [stat_only_row ''h1'' 150, stat_only_row ''h2'' 150, stat_only_row ''h3'' 100,
      stat_only_row ''h4'' 50, stat_only_row ''h5'' 550] []
   = [stat_only_row ''h1'' 150, stat_only_row ''h2'' 150, stat_only_row ''h3'' 100,
      stat_only_row ''h4'' 50, stat_only_row ''h5'' 550]"
  by (simp add: store_analysis_ml_def postgres_def pg_upsert_la_ml_def stat_only_row_def)

text \<open>
  Claim C7: without a model the classifier falls back to the statistical rule, so that a
  listing above mean + 1.5 sigma is still flagged. The run below has five passing
  listings, too few to train. The fifth has 550 per square foot against a segment mean
  of 200 and a deviation of 200; \<^verbatim>\<open>flag_row\<close> calls it over-priced, the stored verdict
  of the ML module's run is not an anomaly, and the summary counts no anomaly.
\<close>

theorem statistics_only_run_flags_nothing:
  "fst (analyze_and_store_ml postgres flat_fit noon ''12345'' (new_db outlier_listings)) =
     Inr \<lparr>timestamp = 43200, r_zip_code = ''12345'', total_new_listings = 5, dq_failures = 0,
          model_trained = False, ml_anomalies = 0, ml_opportunities = 0, ml_risks = 0\<rparr>
   \<and> last (listing_analysis
        (snd (analyze_and_store_ml postgres flat_fit noon ''12345'' (new_db outlier_listings)))) =
     \<lparr>la_listing_id = ''h5'', price_per_sqft = Some 550, is_anomaly = False,
      anomaly_type = None, mean_ppsq = Some 200, std_ppsq = Some 200,
      predicted_price = None, deviation_percentage = None,
      la_dq_status = Some ''STAT_ONLY'', analyzed_at = 43200\<rparr>
   \<and> flag_row (Some 550) (Some 200) (Some 200) = (True, Some ''over-priced'')"
proof -
  have r: "load_recent_listings ''12345'' 43200 (new_db outlier_listings) \<noteq> []"
    by (simp add: load_recent_listings_def new_db_def outlier_listings_def house_def)
  have t: "train_model flat_fit (noon 1) ''12345'' (new_db outlier_listings) = Inr None"
    using outlier_declined by (simp add: noon_def)
  have q: "dq_count ''12345'' (new_db outlier_listings) = 0"
    by (simp add: dq_count_def new_db_def outlier_listings_def house_def)
  have l: "length outlier_listings = 5" by (simp add: outlier_listings_def)
  have "analyze_and_store_ml postgres flat_fit noon ''12345'' (new_db outlier_listings) =
    (Inr \<lparr>timestamp = 43200, r_zip_code = ''12345'', total_new_listings = 5, dq_failures = 0,
          model_trained = False, ml_anomalies = 0, ml_opportunities = 0, ml_risks = 0\<rparr>,
     (new_db outlier_listings)\<lparr>listing_analysis :=
        [stat_only_row ''h1'' 150, stat_only_row ''h2'' 150, stat_only_row ''h3'' 100,
         stat_only_row ''h4'' 50, stat_only_row ''h5'' 550]\<rparr>)"
    unfolding analyze_and_store_ml_def t
    by (simp add: Let_def noon_def [of 0] noon_def [of 2] r outlier_prepared outlier_ml_records
        new_db_sel outlier_stored q l)
       (simp add: stat_only_row_def)
  then show ?thesis
    by (simp add: stat_only_row_def THRESHOLD_MULTIPLIER_def)
qed

subsection \<open>Quality status\<close>

lemma load_recent_listings_pass:
  "l \<in> set (load_recent_listings zc now d) \<Longrightarrow> dq_status l = Some ''PASS''"
  by (simp add: load_recent_listings_def)

lemma load_recent_listings_pass_only:
  "load_recent_listings zc now (d\<lparr>listings := filter (\<lambda>l. dq_status l = Some ''PASS'') (listings d)\<rparr>)
     = load_recent_listings zc now d"
  by (auto simp: load_recent_listings_def intro: filter_cong)

lemma train_model_pass_only:
  "train_model fit now zc (d\<lparr>listings := filter (\<lambda>l. dq_status l = Some ''PASS'') (listings d)\<rparr>)
     = train_model fit now zc d"
  by (simp add: train_model_def load_recent_listings_pass_only)

lemma analyze_and_store_ml_pass_only:
  "listing_analysis (snd (analyze_and_store_ml cfg fit clock zc
       (d\<lparr>listings := filter (\<lambda>l. dq_status l = Some ''PASS'') (listings d)\<rparr>)))
     = listing_analysis (snd (analyze_and_store_ml cfg fit clock zc d))"
  by (simp add: analyze_and_store_ml_def train_model_pass_only load_recent_listings_pass_only
      Let_def split: sum.splits)

lemma group_values_relabel:
  "group_values (map (\<lambda>l. l\<lparr>dq_status := q l\<rparr>) df) k = group_values df k"
proof -
  have p: "\<And>l. ppsq (l\<lparr>dq_status := q l\<rparr>) = ppsq l" by (simp add: ppsq_def split: option.splits)
  have g: "\<And>l. group_key (l\<lparr>dq_status := q l\<rparr>) = group_key l" by (simp add: group_key_def)
  show ?thesis
    unfolding group_values_def by (induction df) (simp_all add: p g split: option.splits)
qed

lemma group_keys_relabel:
  "List.map_filter group_key (map (\<lambda>l. l\<lparr>dq_status := q l\<rparr>) df) = List.map_filter group_key df"
proof -
  have g: "\<And>l. group_key (l\<lparr>dq_status := q l\<rparr>) = group_key l" by (simp add: group_key_def)
  show ?thesis by (induction df) (simp_all add: g split: option.splits)
qed

lemma groupby_stats_relabel:
  "groupby_stats (map (\<lambda>l. l\<lparr>dq_status := q l\<rparr>) df) = groupby_stats df"
  by (simp add: groupby_stats_def group_values_relabel group_keys_relabel)

lemma stat_frame_relabel:
  "stat_frame zc (d\<lparr>listings := map (\<lambda>l. l\<lparr>dq_status := q l\<rparr>) (listings d)\<rparr>)
     = map (\<lambda>l. l\<lparr>dq_status := q l\<rparr>) (stat_frame zc d)"
  by (simp add: stat_frame_def select_zip_def filter_map comp_def)

text \<open>
  Claim C8, as stated: a listing whose quality status is not PASS is excluded from the
  population the baseline estimator aggregates and from the training population.
  analyze.py selects by zip code and positive area only: a failed listing of 400 square
  feet is the whole population of its segment's mean and count.
\<close>

theorem quality_exclusion_counterexample:
  "dq_status small_flat \<noteq> Some ''PASS''
   \<and> small_flat \<in> set (stat_frame ''12345'' (new_db [small_flat]))
   \<and> analyze_and_store postgres noon ''12345'' (new_db [small_flat]) =
       (None,
        \<lparr>listings = [small_flat],
         group_stats = [\<lparr>gs_zip_code = ''12345'', gs_property_type = ''House'', stat_date = 0,
                         gs_mean_ppsq = Some 250, gs_std_ppsq = None, count_listings = 1\<rparr>],
         listing_analysis = [\<lparr>la_listing_id = ''f1'', price_per_sqft = Some 250,
                               is_anomaly = False, anomaly_type = None, mean_ppsq = Some 250,
                               std_ppsq = None, predicted_price = None,
                               deviation_percentage = None, la_dq_status = None,
                               analyzed_at = 43200\<rparr>]\<rparr>)"
  by (simp add: small_flat_def house_def stat_frame_def select_zip_def new_db_def positive_def
      analyze_and_store_def groupby_stats_def group_key_def group_values_def ppsq_def mean_def
      std_def gs_record_def date_of_def noon_def store_group_stats_def postgres_def
      pg_upsert_gs_def store_analysis_def stat_records_def stat_verdict_def row_mu_def
      row_sigma_def lookup_stats_def pg_upsert_la_def Let_def)

text \<open>
  Claim C8, amended: in the ML module a listing whose quality status is not PASS is in
  neither the training population nor the population of the segment statistics:
  \<^verbatim>\<open>load_recent_listings\<close> returns passing rows only, and deleting every other row from
  \<^verbatim>\<open>listings\<close> changes neither the outcome of \<^verbatim>\<open>train_model\<close> nor the verdicts stored.
  The baseline of analyze.py does not read the quality status: relabelling the listings
  leaves its segment statistics as they are.
\<close>

theorem quality_exclusion:
  "(\<forall>l\<in>set (listings d). dq_status l \<noteq> Some ''PASS''
        \<longrightarrow> l \<notin> set (load_recent_listings zc now d))
   \<and> train_model fit now zc
        (d\<lparr>listings := filter (\<lambda>l. dq_status l = Some ''PASS'') (listings d)\<rparr>)
       = train_model fit now zc d
   \<and> listing_analysis (snd (analyze_and_store_ml cfg fit clock zc
        (d\<lparr>listings := filter (\<lambda>l. dq_status l = Some ''PASS'') (listings d)\<rparr>)))
       = listing_analysis (snd (analyze_and_store_ml cfg fit clock zc d))
   \<and> groupby_stats (stat_frame zc (d\<lparr>listings := map (\<lambda>l. l\<lparr>dq_status := q l\<rparr>) (listings d)\<rparr>))
       = groupby_stats (stat_frame zc d)"
  using load_recent_listings_pass [of _ zc now d]
  by (auto simp: train_model_pass_only analyze_and_store_ml_pass_only stat_frame_relabel
      groupby_stats_relabel)

theorem quality_exclusion_witness:
  "small_flat \<in> set (listings (new_db (small_flat # outlier_listings)))
   \<and> dq_status small_flat \<noteq> Some ''PASS''
   \<and> small_flat \<notin> set (load_recent_listings ''12345'' 43200 (new_db (small_flat # outlier_listings)))"
proof -
  have h1: "small_flat \<in> set (listings (new_db (small_flat # outlier_listings)))"
    by (simp add: new_db_def)
  have h2: "dq_status small_flat \<noteq> Some ''PASS''"
    by (simp add: small_flat_def house_def)
  from quality_exclusion [of "new_db (small_flat # outlier_listings)" "''12345''" 43200] h1 h2
  have "small_flat \<notin> set (load_recent_listings ''12345'' 43200
      (new_db (small_flat # outlier_listings)))"
    by blast
  with h1 h2 show ?thesis by blast
qed

subsection \<open>Repeated runs\<close>

lemma sqlite_replace_gs_eq: "sqlite_replace_gs True = replace_by gs_key"
  by (intro ext) (simp add: sqlite_replace_gs_def replace_by_def)

lemma pg_upsert_gs_eq: "pg_upsert_gs = update_by gs_key set_gs"
  by (intro ext) (simp add: pg_upsert_gs_def update_by_def set_gs_def)

lemma sqlite_replace_la_eq: "sqlite_replace_la = replace_by la_listing_id"
  by (intro ext) (simp add: sqlite_replace_la_def replace_by_def)

lemma pg_upsert_la_eq: "pg_upsert_la = update_by la_listing_id set_la"
  by (intro ext) (simp add: pg_upsert_la_def update_by_def set_la_def)

lemma overwrites_gs: "overwrites gs_key set_gs"
  by (simp add: overwrites_def set_gs_def gs_key_def)

lemma overwrites_la: "overwrites la_listing_id set_la"
  by (simp add: overwrites_def set_la_def)

lemma key_set_gs: "\<forall>r x. gs_key (set_gs r x) = gs_key x"
  by (simp add: set_gs_def gs_key_def)

lemma key_set_la: "\<forall>r x. la_listing_id (set_la r x) = la_listing_id x"
  by (simp add: set_la_def)

lemma key_forget: "\<forall>x. la_listing_id (forget_analyzed_at x) = la_listing_id x"
  by (simp add: forget_analyzed_at_def)

lemma forget_set_la:
  "\<forall>r x. forget_analyzed_at (set_la r x) = set_la (forget_analyzed_at r) (forget_analyzed_at x)"
  by (simp add: forget_analyzed_at_def set_la_def)

lemma store_group_stats_unique:
  "gs_unique cfg \<Longrightarrow> \<exists>G. store_group_stats cfg recs T = Inr G"
  by (cases "DB_DIALECT cfg") (simp_all add: store_group_stats_def)

lemma store_group_stats_Nil: "gs_unique cfg \<Longrightarrow> store_group_stats cfg [] T = Inr T"
  by (cases "DB_DIALECT cfg") (simp_all add: store_group_stats_def)

lemma store_group_stats_idem:
  assumes "gs_unique cfg" "distinct (map gs_key recs)" "store_group_stats cfg recs T = Inr G"
  shows "store_group_stats cfg recs G = Inr G"
proof (cases "DB_DIALECT cfg")
  case SQLite
  with assms(1,3) have "G = fold (replace_by gs_key) recs T"
    by (simp add: store_group_stats_def sqlite_replace_gs_eq)
  then have "fold (replace_by gs_key) recs G = G"
    using fold_replace_by_idem [OF assms(2)] by simp
  with SQLite assms(1) show ?thesis
    by (simp add: store_group_stats_def sqlite_replace_gs_eq)
next
  case PostgreSQL
  with assms(1,3) have "G = fold (update_by gs_key set_gs) recs T"
    by (simp add: store_group_stats_def pg_upsert_gs_eq)
  then have "fold (update_by gs_key set_gs) recs G = G"
    using fold_update_by_idem [OF overwrites_gs assms(2)] by simp
  with PostgreSQL assms(1) show ?thesis
    by (simp add: store_group_stats_def pg_upsert_gs_eq)
qed

lemma store_group_stats_distinct:
  assumes "gs_unique cfg" "distinct (map gs_key recs)" "distinct (map gs_key T)"
    "store_group_stats cfg recs T = Inr G"
  shows "distinct (map gs_key G)"
proof (cases "DB_DIALECT cfg")
  case SQLite
  with assms(1,4) have "G = fold (replace_by gs_key) recs T"
    by (simp add: store_group_stats_def sqlite_replace_gs_eq)
  then show ?thesis using distinct_fold_replace_by [OF assms(2,3)] by simp
next
  case PostgreSQL
  with assms(1,4) have "G = fold (update_by gs_key set_gs) recs T"
    by (simp add: store_group_stats_def pg_upsert_gs_eq)
  then show ?thesis using distinct_fold_update_by [OF key_set_gs assms(3)] by simp
qed

lemma distinct_gs_records:
  "distinct (map gs_key (map (gs_record dt) (groupby_stats df)))"
proof -
  have "map gs_key (map (gs_record dt) (groupby_stats df))
      = map (\<lambda>k. (fst k, snd k, dt)) (sort (remdups (List.map_filter group_key df)))"
    by (simp add: groupby_stats_def gs_key_def gs_record_def comp_def)
  moreover have "inj_on (\<lambda>k :: string \<times> string. (fst k, snd k, dt))
      (set (sort (remdups (List.map_filter group_key df))))"
    by (rule inj_onI) (simp add: prod_eq_iff)
  moreover have "distinct (sort (remdups (List.map_filter group_key df)))"
    by simp
  ultimately show ?thesis by (simp only: distinct_map)
qed

lemma store_analysis_idem:
  assumes "distinct (map la_listing_id recs)"
  shows "store_analysis cfg recs (store_analysis cfg recs T) = store_analysis cfg recs T"
proof (cases "DB_DIALECT cfg")
  case SQLite
  then show ?thesis
    using fold_replace_by_idem [OF assms]
    by (simp add: store_analysis_def sqlite_replace_la_eq)
next
  case PostgreSQL
  then show ?thesis
    using fold_update_by_idem [OF overwrites_la assms]
    by (simp add: store_analysis_def pg_upsert_la_eq)
qed

lemma store_analysis_distinct:
  assumes "distinct (map la_listing_id recs)" "distinct (map la_listing_id T)"
  shows "distinct (map la_listing_id (store_analysis cfg recs T))"
proof (cases "DB_DIALECT cfg")
  case SQLite
  then show ?thesis
    using distinct_fold_replace_by [OF assms]
    by (simp add: store_analysis_def sqlite_replace_la_eq)
next
  case PostgreSQL
  then show ?thesis
    using distinct_fold_update_by [OF key_set_la assms(2)]
    by (simp add: store_analysis_def pg_upsert_la_eq)
qed

lemma store_analysis_forget:
  "map forget_analyzed_at (store_analysis cfg recs T)
     = store_analysis cfg (map forget_analyzed_at recs) (map forget_analyzed_at T)"
proof (cases "DB_DIALECT cfg")
  case SQLite
  have "\<forall>r T. map forget_analyzed_at (replace_by la_listing_id r T)
      = replace_by la_listing_id (forget_analyzed_at r) (map forget_analyzed_at T)"
    using map_replace_by [OF key_forget] by blast
  then show ?thesis
    using SQLite by (simp add: store_analysis_def sqlite_replace_la_eq map_fold_commute)
next
  case PostgreSQL
  have "\<forall>r T. map forget_analyzed_at (update_by la_listing_id set_la r T)
      = update_by la_listing_id set_la (forget_analyzed_at r) (map forget_analyzed_at T)"
    using map_update_by [OF key_forget forget_set_la] by blast
  then show ?thesis
    using PostgreSQL by (simp add: store_analysis_def pg_upsert_la_eq map_fold_commute)
qed

lemma store_analysis_rerun:
  assumes "distinct (map la_listing_id recs1)"
    and "map forget_analyzed_at recs2 = map forget_analyzed_at recs1"
  shows "map forget_analyzed_at (store_analysis cfg recs2 (store_analysis cfg recs1 T))
     = map forget_analyzed_at (store_analysis cfg recs1 T)"
proof -
  have "map la_listing_id (map forget_analyzed_at recs1) = map la_listing_id recs1"
    by (simp add: forget_analyzed_at_def)
  with assms(1) have d: "distinct (map la_listing_id (map forget_analyzed_at recs1))"
    by (simp only:)
  show ?thesis
    by (simp only: store_analysis_forget assms(2) store_analysis_idem [OF d])
qed

lemma keys_stat_records:
  "map la_listing_id (stat_records stats clock df) = map listing_id df"
proof -
  have "map la_listing_id (stat_records stats clock df)
      = map (\<lambda>(i, l). listing_id l) (enumerate 0 df)"
    by (simp add: stat_records_def stat_verdict_def Let_def split_def comp_def)
  then show ?thesis by (simp add: map_enumerate_const)
qed

lemma forget_stat_records:
  "map forget_analyzed_at (stat_records stats clock2 df)
     = map forget_analyzed_at (stat_records stats clock1 df)"
  by (simp add: stat_records_def stat_verdict_def forget_analyzed_at_def Let_def split_def)

lemma stat_records_same_clock:
  "\<forall>i. clock2 (Suc i) = clock1 (Suc i) \<Longrightarrow> stat_records stats clock2 df = stat_records stats clock1 df"
  by (simp add: stat_records_def)

lemma distinct_stat_frame:
  "distinct (map listing_id (listings d)) \<Longrightarrow> distinct (map listing_id (stat_frame zc d))"
  by (simp add: stat_frame_def select_zip_def distinct_map_filter)

lemma groupby_stats_Nil: "groupby_stats [] = []"
  by (simp add: groupby_stats_def)

lemma analyze_and_store_unique:
  assumes "gs_unique cfg"
    and "store_group_stats cfg (map (gs_record (date_of (clock 0))) (groupby_stats (stat_frame zc d)))
           (group_stats d) = Inr G"
  shows "analyze_and_store cfg clock zc d =
     (if select_zip zc d = [] then (None, d)
      else if stat_frame zc d = [] then (Some KeyError, d)
      else (None, d\<lparr>group_stats := G,
                     listing_analysis :=
                       store_analysis cfg
                         (stat_records (groupby_stats (stat_frame zc d)) clock (stat_frame zc d))
                         (listing_analysis d)\<rparr>))"
proof (cases "stat_frame zc d = []")
  case True
  then show ?thesis
    by (simp add: analyze_and_store_def Let_def groupby_stats_Nil)
next
  case False
  let ?recs = "map (gs_record (date_of (clock 0))) (groupby_stats (stat_frame zc d))"
  have "(if ?recs = [] then Inr (group_stats d) else store_group_stats cfg ?recs (group_stats d))
      = Inr G"
  proof (cases "?recs = []")
    case True
    with assms show ?thesis by (simp add: store_group_stats_Nil)
  next
    case False
    with assms(2) show ?thesis by simp
  qed
  with False show ?thesis
    by (simp add: analyze_and_store_def Let_def)
qed

lemma frames_unchanged:
  "listings d' = listings d \<Longrightarrow> select_zip zc d' = select_zip zc d"
  "listings d' = listings d \<Longrightarrow> stat_frame zc d' = stat_frame zc d"
  by (simp_all add: stat_frame_def select_zip_def)

lemma single_frame:
  "select_zip ''12345'' \<lparr>listings = [house ''h1'' 250000], group_stats = G, listing_analysis = L\<rparr>
     = [house ''h1'' 250000]"
  "stat_frame ''12345'' \<lparr>listings = [house ''h1'' 250000], group_stats = G, listing_analysis = L\<rparr>
     = [house ''h1'' 250000]"
  by (simp_all add: stat_frame_def select_zip_def house_def positive_def)

lemma single_stats:
  "groupby_stats [house ''h1'' 250000] =
     [\<lparr>s_zip_code = ''12345'', s_property_type = ''House'', mu = Some 250, sigma = None, n = 1\<rparr>]"
  by (simp add: groupby_stats_def house_def group_key_def group_values_def ppsq_def mean_def
      std_def)

lemma single_gs_record:
  "t = 43200 \<or> t = 72000 \<Longrightarrow>
   map (gs_record (date_of t)) (groupby_stats [house ''h1'' 250000]) = [single_baseline]"
  by (auto simp: single_stats gs_record_def date_of_def single_baseline_def)

lemma single_records:
  "stat_records (groupby_stats [house ''h1'' 250000]) (\<lambda>i. t) [house ''h1'' 250000]
     = [single_verdict t]"
  unfolding single_stats
  by (simp add: stat_records_def stat_verdict_def row_mu_def row_sigma_def
      lookup_stats_def house_def group_key_def ppsq_def single_verdict_def)

lemma single_run:
  assumes "t = 43200 \<or> t = 72000"
  shows "analyze_and_store cfg (\<lambda>i. t) ''12345''
       \<lparr>listings = [house ''h1'' 250000], group_stats = G, listing_analysis = L\<rparr> =
     (case store_group_stats cfg [single_baseline] G of
        Inl e \<Rightarrow> (Some e, \<lparr>listings = [house ''h1'' 250000], group_stats = G, listing_analysis = L\<rparr>)
      | Inr G' \<Rightarrow> (None, \<lparr>listings = [house ''h1'' 250000], group_stats = G',
                          listing_analysis = store_analysis cfg [single_verdict t] L\<rparr>))"
  unfolding analyze_and_store_def single_frame Let_def single_gs_record [OF assms] single_records
  by (simp split: sum.splits)

lemma postgres_first_run:
  "analyze_and_store postgres noon ''12345'' single_house =
     (None, \<lparr>listings = [house ''h1'' 250000], group_stats = [single_baseline],
             listing_analysis = [single_verdict 43200]\<rparr>)"
proof -
  have n: "noon = (\<lambda>i. 43200)" by (simp add: noon_def fun_eq_iff)
  show ?thesis
    unfolding n single_house_def new_db_def
    by (simp add: single_run store_group_stats_def postgres_def pg_upsert_gs_def
        store_analysis_def pg_upsert_la_def)
qed

lemma postgres_second_run:
  "analyze_and_store postgres evening ''12345''
       \<lparr>listings = [house ''h1'' 250000], group_stats = [single_baseline],
        listing_analysis = [single_verdict 43200]\<rparr> =
     (None, \<lparr>listings = [house ''h1'' 250000], group_stats = [single_baseline],
             listing_analysis = [single_verdict 72000]\<rparr>)"
proof -
  have n: "evening = (\<lambda>i. 72000)" by (simp add: evening_def fun_eq_iff)
  show ?thesis
    unfolding n
    by (simp add: single_run store_group_stats_def postgres_def pg_upsert_gs_def
        store_analysis_def pg_upsert_la_def)
       (simp add: single_baseline_def single_verdict_def gs_key_def)
qed

lemma sqlite_dev_run:
  assumes "t = 43200 \<or> t = 72000"
  shows "analyze_and_store sqlite_dev (\<lambda>i. t) ''12345''
       \<lparr>listings = [house ''h1'' 250000], group_stats = G, listing_analysis = L\<rparr> =
     (None, \<lparr>listings = [house ''h1'' 250000], group_stats = G @ [single_baseline],
             listing_analysis = filter (\<lambda>x. la_listing_id x \<noteq> ''h1'') L @ [single_verdict t]\<rparr>)"
  by (simp add: single_run [OF assms] store_group_stats_def sqlite_dev_def sqlite_replace_gs_def
      store_analysis_def sqlite_replace_la_def)
     (simp add: single_verdict_def)

text \<open>
  Claim C1: a second run of \<^verbatim>\<open>analyze_and_store\<close> on unchanged listings and on the
  same date leaves at most one \<^verbatim>\<open>group_stats\<close> row per (zip code, property type, date)
  and at most one \<^verbatim>\<open>listing_analysis\<close> row per listing, with the values of the first
  run. On the SQLite schema of the repository \<^verbatim>\<open>group_stats\<close> has no unique constraint
  on its key columns, so \<^verbatim>\<open>INSERT OR REPLACE\<close> never replaces: after a run at noon and
  a run in the evening of the same day the segment has two baseline rows for that date.
  The PostgreSQL statement, on a table with the unique key, leaves one.
\<close>

theorem rerun_duplicates_baseline:
  "date_of (evening 0) = date_of (noon 0)
   \<and> snd (analyze_and_store sqlite_dev noon ''12345'' single_house) =
       \<lparr>listings = [house ''h1'' 250000], group_stats = [single_baseline],
        listing_analysis = [single_verdict 43200]\<rparr>
   \<and> snd (analyze_and_store sqlite_dev evening ''12345''
            (snd (analyze_and_store sqlite_dev noon ''12345'' single_house))) =
       \<lparr>listings = [house ''h1'' 250000], group_stats = [single_baseline, single_baseline],
        listing_analysis = [single_verdict 72000]\<rparr>
   \<and> \<not> distinct (map gs_key (group_stats (snd (analyze_and_store sqlite_dev evening ''12345''
            (snd (analyze_and_store sqlite_dev noon ''12345'' single_house))))))
   \<and> snd (analyze_and_store postgres evening ''12345''
            (snd (analyze_and_store postgres noon ''12345'' single_house))) =
       \<lparr>listings = [house ''h1'' 250000], group_stats = [single_baseline],
        listing_analysis = [single_verdict 72000]\<rparr>"
proof -
  have n: "noon = (\<lambda>i. 43200)" by (simp add: noon_def fun_eq_iff)
  have e: "evening = (\<lambda>i. 72000)" by (simp add: evening_def fun_eq_iff)
  have d: "date_of (evening 0) = date_of (noon 0)"
    by (simp add: date_of_def evening_def noon_def)
  have r1: "snd (analyze_and_store sqlite_dev noon ''12345'' single_house) =
       \<lparr>listings = [house ''h1'' 250000], group_stats = [single_baseline],
        listing_analysis = [single_verdict 43200]\<rparr>"
    unfolding n single_house_def new_db_def by (simp add: sqlite_dev_run)
  have r2: "snd (analyze_and_store sqlite_dev evening ''12345''
        \<lparr>listings = [house ''h1'' 250000], group_stats = [single_baseline],
         listing_analysis = [single_verdict 43200]\<rparr>) =
       \<lparr>listings = [house ''h1'' 250000], group_stats = [single_baseline, single_baseline],
        listing_analysis = [single_verdict 72000]\<rparr>"
    unfolding e by (simp add: sqlite_dev_run) (simp add: single_verdict_def)
  have p: "snd (analyze_and_store postgres evening ''12345''
            (snd (analyze_and_store postgres noon ''12345'' single_house))) =
       \<lparr>listings = [house ''h1'' 250000], group_stats = [single_baseline],
        listing_analysis = [single_verdict 72000]\<rparr>"
    by (simp add: postgres_first_run postgres_second_run)
  show ?thesis
    unfolding r1 r2 p using d by simp
qed

text \<open>
  With the unique key on \<^verbatim>\<open>group_stats\<close> and the primary keys in place, a second run on
  unchanged listings and on the same date returns as the first did and leaves
  \<^verbatim>\<open>group_stats\<close> as it was and \<^verbatim>\<open>listing_analysis\<close> the same up to \<^verbatim>\<open>analyzed_at\<close>,
  which every upsert overwrites, with one row per key in both tables.
\<close>

lemma rerun_with_unique_key:
  assumes "gs_unique cfg"
    and "distinct (map listing_id (listings d))"
    and "distinct (map gs_key (group_stats d))"
    and "distinct (map la_listing_id (listing_analysis d))"
    and "date_of (clock2 0) = date_of (clock1 0)"
    and "analyze_and_store cfg clock1 zc d = (e1, d1)"
    and "analyze_and_store cfg clock2 zc d1 = (e2, d2)"
  shows "e2 = e1 \<and> listings d2 = listings d1 \<and> group_stats d2 = group_stats d1
     \<and> map forget_analyzed_at (listing_analysis d2) = map forget_analyzed_at (listing_analysis d1)
     \<and> distinct (map gs_key (group_stats d2))
     \<and> distinct (map la_listing_id (listing_analysis d2))
     \<and> ((\<forall>i. clock2 (Suc i) = clock1 (Suc i)) \<longrightarrow> d2 = d1)"
proof -
  let ?df = "stat_frame zc d"
  let ?gs = "map (gs_record (date_of (clock1 0))) (groupby_stats ?df)"
  let ?r1 = "stat_records (groupby_stats ?df) clock1 ?df"
  let ?r2 = "stat_records (groupby_stats ?df) clock2 ?df"
  let ?L1 = "store_analysis cfg ?r1 (listing_analysis d)"
  obtain G where G: "store_group_stats cfg ?gs (group_stats d) = Inr G"
    using store_group_stats_unique [OF assms(1)] by blast
  have dg: "distinct (map gs_key ?gs)" by (rule distinct_gs_records)
  have dr: "distinct (map la_listing_id ?r1)"
    using assms(2) by (simp add: keys_stat_records distinct_stat_frame)
  note run1 = analyze_and_store_unique [of cfg clock1 zc d G, OF assms(1) G]
  show ?thesis
  proof (cases "select_zip zc d = [] \<or> ?df = []")
    case True
    with run1 assms(6) have d1: "d1 = d"
      by (auto split: if_splits)
    from True run1 have "analyze_and_store cfg clock2 zc d = analyze_and_store cfg clock1 zc d"
      by (auto simp: analyze_and_store_def Let_def groupby_stats_Nil)
    with assms(6,7) d1 have "e2 = e1" "d2 = d1" by simp_all
    with d1 assms(3,4) show ?thesis by simp
  next
    case False
    with run1 assms(6) have e1: "e1 = None"
      and d1: "d1 = d\<lparr>group_stats := G, listing_analysis := ?L1\<rparr>"
      by simp_all
    have l1: "listings d1 = listings d" by (simp add: d1)
    have G2: "store_group_stats cfg
        (map (gs_record (date_of (clock2 0))) (groupby_stats (stat_frame zc d1)))
        (group_stats d1) = Inr G"
      using store_group_stats_idem [OF assms(1) dg G]
      by (simp add: frames_unchanged [OF l1] assms(5)) (simp add: d1)
    from analyze_and_store_unique [of cfg clock2 zc d1 G, OF assms(1) G2] False assms(7)
    have e2: "e2 = None"
      and d2: "d2 = d1\<lparr>group_stats := G,
                       listing_analysis := store_analysis cfg ?r2 (listing_analysis d1)\<rparr>"
      by (simp_all add: frames_unchanged [OF l1])
    have la1: "listing_analysis d1 = ?L1" by (simp add: d1)
    have la2: "listing_analysis d2 = store_analysis cfg ?r2 ?L1" by (simp add: d2 la1)
    have g: "group_stats d2 = group_stats d1" by (simp add: d1 d2)
    have f: "map forget_analyzed_at (listing_analysis d2)
        = map forget_analyzed_at (listing_analysis d1)"
      unfolding la1 la2 using dr forget_stat_records by (rule store_analysis_rerun)
    have dG: "distinct (map gs_key (group_stats d2))"
      using store_group_stats_distinct [OF assms(1) dg assms(3) G] by (simp add: d2)
    have dr2: "distinct (map la_listing_id ?r2)"
      using dr by (simp add: keys_stat_records)
    have dL: "distinct (map la_listing_id (listing_analysis d2))"
      unfolding la2
      using dr2 store_analysis_distinct [OF dr assms(4)] by (rule store_analysis_distinct)
    have same: "(\<forall>i. clock2 (Suc i) = clock1 (Suc i)) \<longrightarrow> d2 = d1"
    proof
      assume "\<forall>i. clock2 (Suc i) = clock1 (Suc i)"
      then have "?r2 = ?r1" by (rule stat_records_same_clock)
      then have "listing_analysis d2 = ?L1"
        using store_analysis_idem [OF dr] by (simp add: la2)
      then show "d2 = d1" by (simp add: d1 d2)
    qed
    from e1 e2 g f dG dL same show ?thesis by (simp add: d2)
  qed
qed

lemma rerun_with_unique_key_example:
  "gs_unique postgres
   \<and> distinct (map listing_id (listings (new_db outlier_listings)))
   \<and> distinct (map gs_key (group_stats (new_db outlier_listings)))
   \<and> distinct (map la_listing_id (listing_analysis (new_db outlier_listings)))
   \<and> date_of (evening 0) = date_of (noon 0)
   \<and> (let d1 = snd (analyze_and_store postgres noon ''12345'' (new_db outlier_listings));
           d2 = snd (analyze_and_store postgres evening ''12345'' d1)
       in group_stats d2 = group_stats d1
          \<and> map forget_analyzed_at (listing_analysis d2)
              = map forget_analyzed_at (listing_analysis d1)
          \<and> distinct (map gs_key (group_stats d2))
          \<and> distinct (map la_listing_id (listing_analysis d2)))"
proof -
  let ?d = "new_db outlier_listings"
  let ?d1 = "snd (analyze_and_store postgres noon ''12345'' ?d)"
  have h1: "gs_unique postgres" by (simp add: postgres_def)
  have h2: "distinct (map listing_id (listings ?d))"
    by (simp add: new_db_def outlier_listings_def house_def)
  have h3: "distinct (map gs_key (group_stats ?d))" by (simp add: new_db_def)
  have h4: "distinct (map la_listing_id (listing_analysis ?d))" by (simp add: new_db_def)
  have h5: "date_of (evening 0) = date_of (noon 0)"
    by (simp add: date_of_def evening_def noon_def)
  have h6: "analyze_and_store postgres noon ''12345'' ?d
      = (fst (analyze_and_store postgres noon ''12345'' ?d), ?d1)"
    by simp
  have h7: "analyze_and_store postgres evening ''12345'' ?d1
      = (fst (analyze_and_store postgres evening ''12345'' ?d1),
         snd (analyze_and_store postgres evening ''12345'' ?d1))"
    by simp
  from rerun_with_unique_key [OF h1 h2 h3 h4 h5 h6 h7] h1 h2 h3 h4 h5
  show ?thesis unfolding Let_def by blast
qed

subsection \<open>Deviation percentage\<close>

lemma load_recent_listings_all:
  assumes "\<forall>l\<in>set df. zip_code l = zc \<and> now - 90 * 86400 \<le> scrape_timestamp l
             \<and> dq_status l = Some ''PASS''"
  shows "load_recent_listings zc now (new_db df) = df"
  using assms by (simp add: load_recent_listings_def new_db_def)

lemma prepare_features_complete:
  assumes "\<forall>l\<in>set df. positive (sq_ft l) \<and> positive (price l) \<and> positive (beds l)
             \<and> baths l \<noteq> None \<and> year_built l \<noteq> None"
  shows "prepare_features df = df"
proof -
  have f: "filter (\<lambda>l. positive (sq_ft l) \<and> positive (price l) \<and> positive (beds l)) df = df"
    using assms by simp
  have "l\<lparr>beds := fillna (beds l) m1, baths := fillna (baths l) m2,
        year_built := fillna (year_built l) m3\<rparr> = l" if "l \<in> set df" for l m1 m2 m3
  proof -
    from that assms have "positive (beds l)" "baths l \<noteq> None" "year_built l \<noteq> None"
      by auto
    then obtain b a y where "beds l = Some b" "baths l = Some a" "year_built l = Some y"
      by (auto simp: positive_def split: option.splits)
    then show ?thesis by (simp add: fillna_def)
  qed
  then show ?thesis
    unfolding prepare_features_def Let_def f by (simp add: map_idI)
qed

lemma pg_upsert_la_ml_new:
  "la_listing_id r \<notin> set (map la_listing_id T) \<Longrightarrow> pg_upsert_la_ml r T = T @ [r]"
  by (simp add: pg_upsert_la_ml_def)

lemma fold_pg_upsert_la_ml_new:
  "distinct (map la_listing_id rs) \<Longrightarrow>
   set (map la_listing_id rs) \<inter> set (map la_listing_id T) = {} \<Longrightarrow>
   fold pg_upsert_la_ml rs T = T @ rs"
proof (induction rs arbitrary: T)
  case Nil
  then show ?case by simp
next
  case (Cons r rs)
  from Cons.prems have n: "la_listing_id r \<notin> set (map la_listing_id T)" by auto
  from Cons.prems have "set (map la_listing_id rs) \<inter> set (map la_listing_id (T @ [r])) = {}"
    by auto
  moreover from Cons.prems have "distinct (map la_listing_id rs)" by simp
  ultimately have "fold pg_upsert_la_ml rs (T @ [r]) = (T @ [r]) @ rs"
    by (rule Cons.IH[rotated])
  then show ?case by (simp add: pg_upsert_la_ml_new [OF n])
qed

lemma store_analysis_ml_fresh:
  assumes "distinct (map la_listing_id rs)"
  shows "store_analysis_ml cfg rs [] = rs"
proof (cases "DB_DIALECT cfg")
  case SQLite
  then show ?thesis
    using fold_replace_by [OF assms, of "[]"]
    by (simp add: store_analysis_ml_def sqlite_replace_la_eq)
next
  case PostgreSQL
  then show ?thesis
    using fold_pg_upsert_la_ml_new [OF assms, of "[]"] by (simp add: store_analysis_ml_def)
qed

lemma keys_ml_records:
  "map la_listing_id (ml_records m clock df) = map listing_id df"
proof -
  have "map la_listing_id (ml_records m clock df) = map (\<lambda>(i, l). listing_id l) (enumerate 0 df)"
    by (simp add: ml_records_def ml_verdict_def Let_def split_def comp_def)
  then show ?thesis by (simp add: map_enumerate_const)
qed

lemma distinct_priced_listings: "distinct (map listing_id (priced_listings p k))"
proof -
  have "map listing_id (priced_listings p k) = map (\<lambda>i. replicate (Suc i) CHR ''x'') [0..<k]"
    by (simp add: priced_listings_def house_def comp_def)
  moreover have "inj_on (\<lambda>i. replicate (Suc i) CHR ''x'') (set [0..<k])"
    by (rule inj_onI) (metis length_replicate old.nat.inject)
  ultimately show ?thesis by (simp add: distinct_map)
qed

lemma priced_listing_cases:
  "l \<in> set (priced_listings p k) \<Longrightarrow> \<exists>i. l = house i p"
  by (auto simp: priced_listings_def)

lemma ml_verdict_quoted:
  assumes "f (sq_ft l, beds l, baths l, year_built l) = 200000" and "price l = Some 250000"
  shows "predicted_price (ml_verdict (Some f) stats l t) = Some 200000
     \<and> deviation_percentage (ml_verdict (Some f) stats l t) = Some 25
     \<and> is_anomaly (ml_verdict (Some f) stats l t)
     \<and> anomaly_type (ml_verdict (Some f) stats l t) = Some ''over-priced''
     \<and> la_dq_status (ml_verdict (Some f) stats l t) = Some ''PASS''"
  using assms
  by (simp add: ml_verdict_def Let_def predict_price_def calculate_deviation_def ml_flags_def
      DEVIATION_THRESHOLD_def)

lemma dear_run:
  "analyze_and_store_ml postgres quoted_fit noon ''12345'' (new_db (priced_listings 250000 500)) =
     (Inr \<lparr>timestamp = 43200, r_zip_code = ''12345'', total_new_listings = 500, dq_failures = 0,
           model_trained = True, ml_anomalies = 500, ml_opportunities = 0, ml_risks = 500\<rparr>,
      (new_db (priced_listings 250000 500))\<lparr>listing_analysis :=
         ml_records (Some quoted_model) noon (priced_listings 250000 500)\<rparr>)"
proof -
  let ?df = "priced_listings 250000 500"
  let ?recs = "ml_records (Some quoted_model) noon ?df"
  have len: "length ?df = 500" by (simp add: priced_listings_def)
  have ne: "?df \<noteq> []" using len by auto
  have lr: "\<And>i. load_recent_listings ''12345'' (noon i) (new_db ?df) = ?df"
    by (rule load_recent_listings_all) (auto simp: priced_listings_def house_def noon_def)
  have pf: "prepare_features ?df = ?df"
    by (rule prepare_features_complete) (auto simp: priced_listings_def house_def positive_def)
  have tm: "train_model quoted_fit (noon 1) ''12345'' (new_db ?df) = Inr (Some quoted_model)"
    using ne len by (simp add: train_model_def lr pf Let_def MIN_TRAIN_SIZE_def quoted_fit_def)
  have dq: "dq_count ''12345'' (new_db ?df) = 0"
    by (simp add: dq_count_def new_db_def priced_listings_def house_def)
  have fl: "\<forall>r\<in>set ?recs. is_anomaly r \<and> anomaly_type r = Some ''over-priced''"
  proof
    fix r assume "r \<in> set ?recs"
    then obtain l t where l: "l \<in> set ?df"
      and r: "r = ml_verdict (Some quoted_model) (ml_group_stats ?df) l t"
      using in_ml_records by blast
    from l obtain i where "l = house i 250000" using priced_listing_cases by blast
    then have "quoted_model (sq_ft l, beds l, baths l, year_built l) = 200000"
      and "price l = Some 250000"
      by (simp_all add: quoted_model_def house_def)
    then show "is_anomaly r \<and> anomaly_type r = Some ''over-priced''"
      unfolding r using ml_verdict_quoted by blast
  qed
  have lrec: "length ?recs = 500"
    using len by (simp add: ml_records_def)
  have c1: "length (filter is_anomaly ?recs) = 500"
    using fl lrec by simp
  have c2: "length (filter (\<lambda>r. is_anomaly r \<and> anomaly_type r = Some ''over-priced'') ?recs) = 500"
    using fl lrec by simp
  have c3: "length (filter (\<lambda>r. is_anomaly r \<and> anomaly_type r = Some ''under-priced'') ?recs) = 0"
    using fl by simp
  have st: "store_analysis_ml postgres ?recs [] = ?recs"
    by (rule store_analysis_ml_fresh) (simp add: keys_ml_records distinct_priced_listings)
  show ?thesis
    unfolding analyze_and_store_ml_def tm
    by (simp add: Let_def lr pf ne dq c1 c2 c3 st len new_db_sel) (simp add: noon_def)
qed

lemma nth_ml_records:
  "i < length df \<Longrightarrow>
   ml_records m clock df ! i = ml_verdict m (ml_group_stats df) (df ! i) (clock (3 + i))"
  by (simp add: ml_records_def nth_enumerate_eq)

text \<open>
  Claim C9: \<^verbatim>\<open>calculate_deviation(actual_price, predicted_price)\<close> is
  \<open>(actual_price - predicted_price) / predicted_price * 100\<close> when the predicted price is
  not zero and 0 when it is zero; for a predicted price of 200000 and an actual price of
  250000 it is 25, and the model-residual strategy classifies the listing as over-priced
  at the threshold of 15: in the records of any frame and model that quote 200000 for a
  listing priced 250000, and in the run on 500 such listings, where every stored verdict
  is over-priced and the summary counts 500 anomalies, all of them risks.
\<close>

theorem deviation_sign_convention:
  "(predicted \<noteq> 0 \<longrightarrow>
      calculate_deviation actual predicted = (actual - predicted) / predicted * 100)
   \<and> calculate_deviation actual 0 = 0
   \<and> calculate_deviation 250000 200000 = 25
   \<and> ml_flags (Some (calculate_deviation 250000 200000)) = (True, Some ''over-priced'')
   \<and> (\<forall>i<length df.
         f (sq_ft (df ! i), beds (df ! i), baths (df ! i), year_built (df ! i)) = 200000
         \<and> price (df ! i) = Some 250000
         \<longrightarrow> predicted_price (ml_records (Some f) clock df ! i) = Some 200000
             \<and> deviation_percentage (ml_records (Some f) clock df ! i) = Some 25
             \<and> is_anomaly (ml_records (Some f) clock df ! i)
             \<and> anomaly_type (ml_records (Some f) clock df ! i) = Some ''over-priced'')
   \<and> fst (analyze_and_store_ml postgres quoted_fit noon ''12345''
            (new_db (priced_listings 250000 500))) =
       Inr \<lparr>timestamp = 43200, r_zip_code = ''12345'', total_new_listings = 500,
            dq_failures = 0, model_trained = True, ml_anomalies = 500, ml_opportunities = 0,
            ml_risks = 500\<rparr>
   \<and> length (listing_analysis (snd (analyze_and_store_ml postgres quoted_fit noon ''12345''
            (new_db (priced_listings 250000 500))))) = 500
   \<and> (\<forall>r\<in>set (listing_analysis (snd (analyze_and_store_ml postgres quoted_fit noon ''12345''
            (new_db (priced_listings 250000 500))))).
         predicted_price r = Some 200000 \<and> deviation_percentage r = Some 25
         \<and> is_anomaly r \<and> anomaly_type r = Some ''over-priced'')"
proof (intro conjI allI impI ballI)
  show "calculate_deviation actual predicted = (actual - predicted) / predicted * 100"
    if "predicted \<noteq> 0"
    using that by (simp add: calculate_deviation_def)
  show "calculate_deviation actual 0 = 0" by (simp add: calculate_deviation_def)
  show "calculate_deviation 250000 200000 = 25" by (simp add: calculate_deviation_def)
  show "ml_flags (Some (calculate_deviation 250000 200000)) = (True, Some ''over-priced'')"
    by (simp add: calculate_deviation_def ml_flags_def DEVIATION_THRESHOLD_def)
next
  fix i
  assume i: "i < length df"
    and h: "f (sq_ft (df ! i), beds (df ! i), baths (df ! i), year_built (df ! i)) = 200000
         \<and> price (df ! i) = Some 250000"
  from h ml_verdict_quoted [of f "df ! i" "ml_group_stats df" "clock (3 + i)"]
  show "predicted_price (ml_records (Some f) clock df ! i) = Some 200000"
    and "deviation_percentage (ml_records (Some f) clock df ! i) = Some 25"
    and "is_anomaly (ml_records (Some f) clock df ! i)"
    and "anomaly_type (ml_records (Some f) clock df ! i) = Some ''over-priced''"
    by (simp_all add: nth_ml_records [OF i])
next
  show "fst (analyze_and_store_ml postgres quoted_fit noon ''12345''
            (new_db (priced_listings 250000 500))) =
       Inr \<lparr>timestamp = 43200, r_zip_code = ''12345'', total_new_listings = 500,
            dq_failures = 0, model_trained = True, ml_anomalies = 500, ml_opportunities = 0,
            ml_risks = 500\<rparr>"
    by (simp add: dear_run)
  show "length (listing_analysis (snd (analyze_and_store_ml postgres quoted_fit noon ''12345''
            (new_db (priced_listings 250000 500))))) = 500"
    by (simp add: dear_run) (simp add: ml_records_def priced_listings_def)
next
  fix r
  assume "r \<in> set (listing_analysis (snd (analyze_and_store_ml postgres quoted_fit noon
      ''12345'' (new_db (priced_listings 250000 500)))))"
  then have "r \<in> set (ml_records (Some quoted_model) noon (priced_listings 250000 500))"
    by (simp add: dear_run)
  then obtain l t where l: "l \<in> set (priced_listings 250000 500)"
    and r: "r = ml_verdict (Some quoted_model) (ml_group_stats (priced_listings 250000 500)) l t"
    using in_ml_records by blast
  from l obtain i where "l = house i 250000" using priced_listing_cases by blast
  then have "quoted_model (sq_ft l, beds l, baths l, year_built l) = 200000"
    and "price l = Some 250000"
    by (simp_all add: quoted_model_def house_def)
  then show "predicted_price r = Some 200000" and "deviation_percentage r = Some 25"
    and "is_anomaly r" and "anomaly_type r = Some ''over-priced''"
    unfolding r using ml_verdict_quoted by blast+
qed

lemma first_dear_row:
  "ml_verdict (Some quoted_model) (ml_group_stats (priced_listings 250000 500))
      (house ''x'' 250000) 43200
   \<in> set (listing_analysis (snd (analyze_and_store_ml postgres quoted_fit noon ''12345''
            (new_db (priced_listings 250000 500)))))"
proof -
  have "house ''x'' 250000 = priced_listings 250000 500 ! 0"
    by (simp add: priced_listings_def)
  moreover have "0 < length (priced_listings 250000 500)" by (simp add: priced_listings_def)
  ultimately have "house ''x'' 250000 \<in> set (priced_listings 250000 500)"
    by (metis nth_mem)
  then show ?thesis by (simp add: dear_run ml_records_noon)
qed

theorem deviation_sign_convention_witness:
  "(200000::real) \<noteq> 0
   \<and> calculate_deviation 230000 200000 = (230000 - 200000) / 200000 * 100
   \<and> 0 < length [house ''h1'' 250000]
   \<and> quoted_model (sq_ft ([house ''h1'' 250000] ! 0), beds ([house ''h1'' 250000] ! 0),
        baths ([house ''h1'' 250000] ! 0), year_built ([house ''h1'' 250000] ! 0)) = 200000
   \<and> price ([house ''h1'' 250000] ! 0) = Some 250000
   \<and> deviation_percentage (ml_records (Some quoted_model) noon [house ''h1'' 250000] ! 0) = Some 25
   \<and> anomaly_type (ml_records (Some quoted_model) noon [house ''h1'' 250000] ! 0)
       = Some ''over-priced''
   \<and> (let r = ml_verdict (Some quoted_model) (ml_group_stats (priced_listings 250000 500))
                 (house ''x'' 250000) 43200
       in r \<in> set (listing_analysis (snd (analyze_and_store_ml postgres quoted_fit noon ''12345''
                      (new_db (priced_listings 250000 500)))))
          \<and> deviation_percentage r = Some 25 \<and> is_anomaly r
          \<and> anomaly_type r = Some ''over-priced'')"
proof -
  note t = deviation_sign_convention
    [of 200000 230000 "[house ''h1'' 250000]" quoted_model noon]
  have h1: "(200000::real) \<noteq> 0" by simp
  have h2: "0 < length [house ''h1'' 250000]" by simp
  have h3: "quoted_model (sq_ft ([house ''h1'' 250000] ! 0), beds ([house ''h1'' 250000] ! 0),
        baths ([house ''h1'' 250000] ! 0), year_built ([house ''h1'' 250000] ! 0)) = 200000"
    by (simp add: quoted_model_def)
  have h4: "price ([house ''h1'' 250000] ! 0) = Some 250000" by (simp add: house_def)
  from t h1 have a: "calculate_deviation 230000 200000 = (230000 - 200000) / 200000 * 100"
    by blast
  from t h2 h3 h4
  have b: "deviation_percentage (ml_records (Some quoted_model) noon [house ''h1'' 250000] ! 0)
      = Some 25"
    and c: "anomaly_type (ml_records (Some quoted_model) noon [house ''h1'' 250000] ! 0)
      = Some ''over-priced''"
    by blast+
  let ?r = "ml_verdict (Some quoted_model) (ml_group_stats (priced_listings 250000 500))
                 (house ''x'' 250000) 43200"
  from t first_dear_row
  have d: "deviation_percentage ?r = Some 25 \<and> is_anomaly ?r
      \<and> anomaly_type ?r = Some ''over-priced''"
    by blast
  from h1 a h2 h3 h4 b c first_dear_row d show ?thesis
    unfolding Let_def by blast
qed

subsection \<open>Stored rows of small segments\<close>

lemma fold_replace_by_row:
  assumes "distinct (map key rs)" "r \<in> set rs"
  shows "r \<in> set (fold (replace_by key) rs T)"
    and "\<forall>x\<in>set (fold (replace_by key) rs T). key x = key r \<longrightarrow> x = r"
proof -
  show "r \<in> set (fold (replace_by key) rs T)"
    using assms by (simp add: fold_replace_by)
  from assms(1) have "inj_on key (set rs)" by (simp add: distinct_map)
  with assms(2) show "\<forall>x\<in>set (fold (replace_by key) rs T). key x = key r \<longrightarrow> x = r"
    by (auto simp: fold_replace_by [OF assms(1)] dest: inj_onD)
qed

lemma fold_update_by_row:
  assumes "overwrites key u" "distinct (map key rs)" "r \<in> set rs"
  shows "up_to_date key u r (fold (update_by key u) rs T)"
proof -
  have "\<forall>r\<in>{} \<union> set rs. up_to_date key u r (fold (update_by key u) rs T)"
    by (rule up_to_date_fold [OF assms(1,2)]) simp
  with assms(3) show ?thesis by simp
qed

lemma store_analysis_row:
  assumes "distinct (map la_listing_id rs)" "r \<in> set rs"
  shows "(\<exists>x\<in>set (store_analysis cfg rs T). la_listing_id x = la_listing_id r)
     \<and> (\<forall>x\<in>set (store_analysis cfg rs T). la_listing_id x = la_listing_id r \<longrightarrow>
          price_per_sqft x = price_per_sqft r \<and> is_anomaly x = is_anomaly r
          \<and> anomaly_type x = anomaly_type r \<and> mean_ppsq x = mean_ppsq r
          \<and> std_ppsq x = std_ppsq r \<and> analyzed_at x = analyzed_at r)"
proof (cases "DB_DIALECT cfg")
  case SQLite
  then have s: "store_analysis cfg rs T = fold (replace_by la_listing_id) rs T"
    by (simp add: store_analysis_def sqlite_replace_la_eq)
  from fold_replace_by_row [OF assms, of T] show ?thesis
    unfolding s by blast
next
  case PostgreSQL
  then have s: "store_analysis cfg rs T = fold (update_by la_listing_id set_la) rs T"
    by (simp add: store_analysis_def pg_upsert_la_eq)
  from fold_update_by_row [OF overwrites_la assms, of T]
  have m: "la_listing_id r \<in> set (map la_listing_id (store_analysis cfg rs T))"
    and e: "\<forall>x\<in>set (store_analysis cfg rs T). la_listing_id x = la_listing_id r \<longrightarrow> set_la r x = x"
    unfolding s by (simp_all add: up_to_date_def)
  have "price_per_sqft x = price_per_sqft r \<and> is_anomaly x = is_anomaly r
          \<and> anomaly_type x = anomaly_type r \<and> mean_ppsq x = mean_ppsq r
          \<and> std_ppsq x = std_ppsq r \<and> analyzed_at x = analyzed_at r"
    if "set_la r x = x" for x
  proof -
    have "price_per_sqft (set_la r x) = price_per_sqft r" "is_anomaly (set_la r x) = is_anomaly r"
      "anomaly_type (set_la r x) = anomaly_type r" "mean_ppsq (set_la r x) = mean_ppsq r"
      "std_ppsq (set_la r x) = std_ppsq r" "analyzed_at (set_la r x) = analyzed_at r"
      by (simp_all add: set_la_def)
    with that show ?thesis by simp
  qed
  with e m show ?thesis by auto
qed

lemma store_group_stats_present:
  assumes "store_group_stats cfg rs T = Inr G" "distinct (map gs_key rs)" "r \<in> set rs"
  shows "\<exists>g\<in>set G. gs_key g = gs_key r \<and> gs_mean_ppsq g = gs_mean_ppsq r
           \<and> gs_std_ppsq g = gs_std_ppsq r \<and> count_listings g = count_listings r"
proof (cases "DB_DIALECT cfg")
  case SQLite
  show ?thesis
  proof (cases "gs_unique cfg")
    case True
    with SQLite assms(1) have "G = fold (replace_by gs_key) rs T"
      by (simp add: store_group_stats_def sqlite_replace_gs_eq)
    with fold_replace_by_row(1) [OF assms(2,3), of T] show ?thesis by blast
  next
    case False
    have "fold (sqlite_replace_gs False) rs T = T @ rs" for T
      by (induction rs arbitrary: T) (simp_all add: sqlite_replace_gs_def)
    with SQLite False assms(1) have "G = T @ rs" by (simp add: store_group_stats_def)
    with assms(3) show ?thesis by auto
  qed
next
  case PostgreSQL
  with assms(1) have u: "gs_unique cfg" and G: "G = fold (update_by gs_key set_gs) rs T"
    by (auto simp: store_group_stats_def pg_upsert_gs_eq split: if_splits)
  from fold_update_by_row [OF overwrites_gs assms(2,3), of T]
  have m: "gs_key r \<in> set (map gs_key G)"
    and e: "\<forall>x\<in>set G. gs_key x = gs_key r \<longrightarrow> set_gs r x = x"
    unfolding G by (simp_all add: up_to_date_def)
  from m obtain g where g: "g \<in> set G" "gs_key g = gs_key r" by auto
  with e have "set_gs r g = g" by simp
  moreover have "gs_mean_ppsq (set_gs r g) = gs_mean_ppsq r"
    "gs_std_ppsq (set_gs r g) = gs_std_ppsq r" "count_listings (set_gs r g) = count_listings r"
    by (simp_all add: set_gs_def)
  ultimately show ?thesis using g by (intro bexI [of _ g]) simp_all
qed

lemma store_group_stats_only:
  assumes "gs_unique cfg" "store_group_stats cfg rs T = Inr G" "distinct (map gs_key rs)"
    "r \<in> set rs"
  shows "\<forall>g\<in>set G. gs_key g = gs_key r \<longrightarrow>
           gs_mean_ppsq g = gs_mean_ppsq r \<and> gs_std_ppsq g = gs_std_ppsq r
           \<and> count_listings g = count_listings r"
proof (cases "DB_DIALECT cfg")
  case SQLite
  with assms(1,2) have "G = fold (replace_by gs_key) rs T"
    by (simp add: store_group_stats_def sqlite_replace_gs_eq)
  with fold_replace_by_row(2) [OF assms(3,4), of T] show ?thesis by blast
next
  case PostgreSQL
  with assms(1,2) have G: "G = fold (update_by gs_key set_gs) rs T"
    by (simp add: store_group_stats_def pg_upsert_gs_eq)
  from fold_update_by_row [OF overwrites_gs assms(3,4), of T]
  have e: "\<forall>x\<in>set G. gs_key x = gs_key r \<longrightarrow> set_gs r x = x"
    unfolding G by (simp add: up_to_date_def)
  show ?thesis
  proof (intro ballI impI)
    fix g assume "g \<in> set G" "gs_key g = gs_key r"
    with e have "set_gs r g = g" by simp
    moreover have "gs_mean_ppsq (set_gs r g) = gs_mean_ppsq r"
      "gs_std_ppsq (set_gs r g) = gs_std_ppsq r" "count_listings (set_gs r g) = count_listings r"
      by (simp_all add: set_gs_def)
    ultimately show "gs_mean_ppsq g = gs_mean_ppsq r \<and> gs_std_ppsq g = gs_std_ppsq r
           \<and> count_listings g = count_listings r"
      by simp
  qed
qed

lemma store_group_stats_valid:
  "DB_DIALECT cfg = SQLite \<or> gs_unique cfg \<Longrightarrow> \<exists>G. store_group_stats cfg rs T = Inr G"
  by (cases "DB_DIALECT cfg") (auto simp: store_group_stats_def)

lemma analyze_and_store_stores:
  assumes "stat_frame zc d \<noteq> []"
    and "map (gs_record (date_of (clock 0))) (groupby_stats (stat_frame zc d)) \<noteq> []"
    and "store_group_stats cfg (map (gs_record (date_of (clock 0))) (groupby_stats (stat_frame zc d)))
           (group_stats d) = Inr G"
  shows "analyze_and_store cfg clock zc d =
     (None, d\<lparr>group_stats := G,
              listing_analysis :=
                store_analysis cfg
                  (stat_records (groupby_stats (stat_frame zc d)) clock (stat_frame zc d))
                  (listing_analysis d)\<rparr>)"
proof -
  from assms(1) have "select_zip zc d \<noteq> []" by (auto simp: stat_frame_def)
  with assms show ?thesis by (simp add: analyze_and_store_def Let_def)
qed

lemma bulk_priced: "bulk_listings k = priced_listings 100000 k"
  by (simp add: bulk_listings_def priced_listings_def)

lemma find_ml_group:
  "pt \<in> set ks \<Longrightarrow>
   find (\<lambda>s. pt = fst s) (map (\<lambda>k. (k, f k, g k)) ks) = Some (pt, f pt, g pt)"
  by (induction ks) auto

lemma ml_lookup_group_stats:
  assumes "l \<in> set df" "property_type l = Some pt"
  shows "ml_lookup (ml_group_stats df) l =
     (mean (ml_group_values df pt), std (ml_group_values df pt))"
proof -
  from assms have "pt \<in> set (sort (remdups (List.map_filter property_type df)))"
    by (force simp: set_map_filter)
  then have "find (\<lambda>s. pt = fst s)
      (map (\<lambda>k. (k, mean (ml_group_values df k), std (ml_group_values df k)))
        (sort (remdups (List.map_filter property_type df))))
      = Some (pt, mean (ml_group_values df pt), std (ml_group_values df pt))"
    by (rule find_ml_group)
  then show ?thesis
    by (simp add: ml_lookup_def ml_group_stats_def assms(2))
qed

lemma lone_condo_values: "ml_group_values lone_condo_listings ''Condo'' = [300]"
proof -
  have "filter (\<lambda>l. property_type l = Some ''Condo'') (bulk_listings 500) = []"
    by (simp add: bulk_listings_def house_def filter_empty_conv)
  then show ?thesis
    by (simp add: ml_group_values_def lone_condo_listings_def condo_def house_def ppsq_def)
qed

lemma lone_condo_mem: "condo ''c1'' 300000 \<in> set lone_condo_listings"
  by (simp add: lone_condo_listings_def)

lemma lone_condo_verdict:
  "ml_verdict (Some flat_model) (ml_group_stats lone_condo_listings) (condo ''c1'' 300000) 43200
     = lone_condo_row"
proof -
  have "property_type (condo ''c1'' 300000) = Some ''Condo''" by (simp add: condo_def)
  with lone_condo_mem
  have "ml_lookup (ml_group_stats lone_condo_listings) (condo ''c1'' 300000) = (Some 300, None)"
    by (simp add: ml_lookup_group_stats lone_condo_values mean_def std_def)
  then show ?thesis
    by (simp add: ml_verdict_def Let_def predict_price_def flat_model_def condo_def house_def
        calculate_deviation_def ml_flags_def DEVIATION_THRESHOLD_def ppsq_def lone_condo_row_def)
qed

lemma lone_condo_distinct: "distinct (map listing_id lone_condo_listings)"
proof -
  have "''c1'' \<notin> set (map listing_id (bulk_listings 500))"
    by (auto simp: bulk_listings_def house_def)
  then show ?thesis
    using distinct_priced_listings [of 100000 500]
    by (simp add: lone_condo_listings_def bulk_priced condo_def house_def)
qed

lemma lone_condo_run:
  "listing_analysis (snd (analyze_and_store_ml postgres flat_fit noon ''12345''
       (new_db lone_condo_listings)))
     = ml_records (Some flat_model) noon lone_condo_listings"
proof -
  let ?df = "lone_condo_listings"
  have len: "length ?df = 501" by (simp add: lone_condo_listings_def bulk_listings_def)
  have ne: "?df \<noteq> []" using len by auto
  have lr: "\<And>i. load_recent_listings ''12345'' (noon i) (new_db ?df) = ?df"
    by (rule load_recent_listings_all)
       (auto simp: lone_condo_listings_def bulk_listings_def house_def condo_def noon_def)
  have pf: "prepare_features ?df = ?df"
    by (rule prepare_features_complete)
       (auto simp: lone_condo_listings_def bulk_listings_def house_def condo_def positive_def)
  have tm: "train_model flat_fit (noon 1) ''12345'' (new_db ?df) = Inr (Some flat_model)"
    using ne len by (simp add: train_model_def lr pf Let_def MIN_TRAIN_SIZE_def flat_fit_def)
  have st: "store_analysis_ml postgres (ml_records (Some flat_model) noon ?df) []
      = ml_records (Some flat_model) noon ?df"
    by (rule store_analysis_ml_fresh) (simp add: keys_ml_records lone_condo_distinct)
  show ?thesis
    unfolding analyze_and_store_ml_def tm
    by (simp add: Let_def lr pf ne st new_db_sel)
qed

text \<open>
  Claim C5, as stated: in a segment with fewer than two listings contributing a price per
  area the stored standard deviation is null and every listing of the segment gets a
  verdict with \<open>is_anomaly = False\<close> and a null category. The ML module with a trained
  model classifies by the deviation from the predicted price, whatever the size of the
  segment: among 500 houses, the only condominium is stored with a null standard
  deviation and as over-priced.
\<close>

theorem minimum_group_size_counterexample:
  "prepare_features (load_recent_listings ''12345'' (noon 2) (new_db lone_condo_listings))
     = lone_condo_listings
   \<and> condo ''c1'' 300000 \<in> set lone_condo_listings
   \<and> property_type (condo ''c1'' 300000) = Some ''Condo''
   \<and> length (ml_group_values lone_condo_listings ''Condo'') < 2
   \<and> lone_condo_row \<in> set (listing_analysis (snd (analyze_and_store_ml postgres flat_fit noon
        ''12345'' (new_db lone_condo_listings))))
   \<and> la_listing_id lone_condo_row = listing_id (condo ''c1'' 300000)
   \<and> std_ppsq lone_condo_row = None
   \<and> is_anomaly lone_condo_row
   \<and> anomaly_type lone_condo_row = Some ''over-priced''"
proof -
  have lr: "load_recent_listings ''12345'' (noon 2) (new_db lone_condo_listings)
      = lone_condo_listings"
    by (rule load_recent_listings_all)
       (auto simp: lone_condo_listings_def bulk_listings_def house_def condo_def noon_def)
  have pf: "prepare_features lone_condo_listings = lone_condo_listings"
    by (rule prepare_features_complete)
       (auto simp: lone_condo_listings_def bulk_listings_def house_def condo_def positive_def)
  have m: "lone_condo_row \<in> set (ml_records (Some flat_model) noon lone_condo_listings)"
    using lone_condo_mem by (simp add: ml_records_noon lone_condo_verdict [symmetric])
  show ?thesis
    using lone_condo_mem m
    by (simp add: lr pf lone_condo_values lone_condo_run)
       (simp add: lone_condo_row_def condo_def house_def)
qed

text \<open>
  Claim C5, amended: in a run of analyze.py (SQLite, or \<^verbatim>\<open>group_stats\<close> with its unique
  key; listing identifiers unique), for a segment with fewer than two listings
  contributing a price per area, the run does not raise, \<^verbatim>\<open>group_stats\<close> holds a row for
  the segment and the run's date with a null standard deviation (with the unique key,
  every row of that key has it), and \<^verbatim>\<open>listing_analysis\<close> holds a row for each listing
  of the segment, every such row with a null standard deviation, \<open>is_anomaly = False\<close>
  and a null category.
\<close>

theorem minimum_group_size:
  assumes "l \<in> set (stat_frame zc d)" and "group_key l = Some k"
    and "length (group_values (stat_frame zc d) k) < 2"
    and "DB_DIALECT cfg = SQLite \<or> gs_unique cfg"
    and "distinct (map listing_id (listings d))"
  shows "fst (analyze_and_store cfg clock zc d) = None
     \<and> (\<exists>g\<in>set (group_stats (snd (analyze_and_store cfg clock zc d))).
            gs_key g = (fst k, snd k, date_of (clock 0)) \<and> gs_std_ppsq g = None
            \<and> count_listings g = length (group_values (stat_frame zc d) k))
     \<and> (gs_unique cfg \<longrightarrow>
          (\<forall>g\<in>set (group_stats (snd (analyze_and_store cfg clock zc d))).
             gs_key g = (fst k, snd k, date_of (clock 0)) \<longrightarrow> gs_std_ppsq g = None))
     \<and> (\<exists>r\<in>set (listing_analysis (snd (analyze_and_store cfg clock zc d))).
            la_listing_id r = listing_id l)
     \<and> (\<forall>r\<in>set (listing_analysis (snd (analyze_and_store cfg clock zc d))).
            la_listing_id r = listing_id l \<longrightarrow>
              std_ppsq r = None \<and> \<not> is_anomaly r \<and> anomaly_type r = None)"
proof -
  let ?df = "stat_frame zc d"
  let ?dt = "date_of (clock 0)"
  let ?stats = "groupby_stats ?df"
  let ?s = "\<lparr>s_zip_code = fst k, s_property_type = snd k, mu = mean (group_values ?df k),
           sigma = std (group_values ?df k), n = length (group_values ?df k)\<rparr>"
  let ?gs = "map (gs_record ?dt) ?stats"
  let ?recs = "stat_records ?stats clock ?df"
  have lk: "lookup_stats ?stats l = Some ?s"
    using assms(1,2) by (rule lookup_groupby_stats)
  then have sm: "?s \<in> set ?stats"
    by (auto simp: lookup_stats_def find_Some_iff)
  have sg: "sigma ?s = None" using assms(3) by (simp add: std_small)
  from sm have gm: "gs_record ?dt ?s \<in> set ?gs" by simp
  then have gne: "?gs \<noteq> []" by auto
  have gk: "gs_key (gs_record ?dt ?s) = (fst k, snd k, ?dt)"
    by (simp add: gs_key_def gs_record_def)
  have gstd: "gs_std_ppsq (gs_record ?dt ?s) = None" using sg by (simp add: gs_record_def)
  have gcnt: "count_listings (gs_record ?dt ?s) = length (group_values ?df k)"
    by (simp add: gs_record_def)
  have dne: "?df \<noteq> []" using assms(1) by auto
  obtain G where G: "store_group_stats cfg ?gs (group_stats d) = Inr G"
    using store_group_stats_valid [OF assms(4)] by blast
  have run: "analyze_and_store cfg clock zc d =
     (None, d\<lparr>group_stats := G,
              listing_analysis := store_analysis cfg ?recs (listing_analysis d)\<rparr>)"
    using dne gne G by (rule analyze_and_store_stores)
  have dg: "distinct (map gs_key ?gs)" by (rule distinct_gs_records)
  have c1: "fst (analyze_and_store cfg clock zc d) = None" by (simp add: run)
  have c2: "\<exists>g\<in>set G. gs_key g = (fst k, snd k, ?dt) \<and> gs_std_ppsq g = None
      \<and> count_listings g = length (group_values ?df k)"
    using store_group_stats_present [OF G dg gm] by (auto simp: gk gstd gcnt)
  have c3: "gs_unique cfg \<longrightarrow> (\<forall>g\<in>set G. gs_key g = (fst k, snd k, ?dt) \<longrightarrow> gs_std_ppsq g = None)"
  proof
    assume "gs_unique cfg"
    from store_group_stats_only [OF this G dg gm]
    show "\<forall>g\<in>set G. gs_key g = (fst k, snd k, ?dt) \<longrightarrow> gs_std_ppsq g = None"
      by (simp add: gk gstd)
  qed
  from assms(1) obtain i where i: "i < length ?df" and li: "?df ! i = l"
    by (auto simp: in_set_conv_nth)
  let ?r = "stat_verdict ?stats l (clock (Suc i))"
  have "?recs ! i = ?r"
    using i li by (simp add: stat_records_def nth_enumerate_eq)
  moreover have "i < length ?recs" using i by (simp add: stat_records_def)
  ultimately have rm: "?r \<in> set ?recs" by (metis nth_mem)
  have dr: "distinct (map la_listing_id ?recs)"
    using assms(5) by (simp add: keys_stat_records distinct_stat_frame)
  have rs: "row_sigma ?stats l = None" using lk sg by (simp add: row_sigma_def)
  have rf: "la_listing_id ?r = listing_id l" "std_ppsq ?r = None" "\<not> is_anomaly ?r"
    "anomaly_type ?r = None"
    using rs by (simp_all add: stat_verdict_def Let_def flag_row_no_sigma)
  note st = store_analysis_row [OF dr rm, of cfg "listing_analysis d"]
  have c4: "\<exists>r\<in>set (store_analysis cfg ?recs (listing_analysis d)).
      la_listing_id r = listing_id l"
    using st by (simp add: rf)
  have c5: "\<forall>r\<in>set (store_analysis cfg ?recs (listing_analysis d)).
      la_listing_id r = listing_id l \<longrightarrow> std_ppsq r = None \<and> \<not> is_anomaly r \<and> anomaly_type r = None"
    using st by (simp add: rf)
  from c1 c2 c3 c4 c5 show ?thesis by (simp add: run)
qed

lemma mixed_distinct: "distinct (map listing_id (listings (new_db mixed_listings)))"
  by (simp add: new_db_def mixed_listings_def outlier_listings_def house_def condo_def)

theorem minimum_group_size_witness:
  "condo ''c1'' 300000 \<in> set (stat_frame ''12345'' (new_db mixed_listings))
   \<and> group_key (condo ''c1'' 300000) = Some (''12345'', ''Condo'')
   \<and> length (group_values (stat_frame ''12345'' (new_db mixed_listings)) (''12345'', ''Condo'')) < 2
   \<and> (DB_DIALECT postgres = SQLite \<or> gs_unique postgres)
   \<and> distinct (map listing_id (listings (new_db mixed_listings)))
   \<and> gs_unique postgres
   \<and> fst (analyze_and_store postgres noon ''12345'' (new_db mixed_listings)) = None
   \<and> (\<exists>g\<in>set (group_stats (snd (analyze_and_store postgres noon ''12345'' (new_db mixed_listings)))).
          gs_key g = (''12345'', ''Condo'', 0) \<and> gs_std_ppsq g = None \<and> count_listings g = 1)
   \<and> (\<exists>r\<in>set (listing_analysis (snd (analyze_and_store postgres noon ''12345''
                   (new_db mixed_listings)))).
          la_listing_id r = ''c1'' \<and> std_ppsq r = None \<and> \<not> is_anomaly r \<and> anomaly_type r = None)"
proof -
  let ?d = "new_db mixed_listings"
  have h1: "condo ''c1'' 300000 \<in> set (stat_frame ''12345'' ?d)"
    by (simp add: mixed_frame) (simp add: mixed_listings_def)
  have h2: "group_key (condo ''c1'' 300000) = Some (''12345'', ''Condo'')"
    by (simp add: group_key_def condo_def house_def)
  have h3: "length (group_values (stat_frame ''12345'' ?d) (''12345'', ''Condo'')) < 2"
    by (simp add: mixed_frame mixed_condo_values)
  have h4: "DB_DIALECT postgres = SQLite \<or> gs_unique postgres" by (simp add: postgres_def)
  have h6: "gs_unique postgres" by (simp add: postgres_def)
  have dt: "date_of (noon 0) = 0" by (simp add: date_of_def noon_def)
  have id: "listing_id (condo ''c1'' 300000) = ''c1''" by (simp add: condo_def house_def)
  have ln: "length (group_values (stat_frame ''12345'' ?d) (''12345'', ''Condo'')) = 1"
    by (simp add: mixed_frame mixed_condo_values)
  note t = minimum_group_size [OF h1 h2 h3 h4 mixed_distinct, of noon, unfolded dt id fst_conv snd_conv ln]
  from t have a: "fst (analyze_and_store postgres noon ''12345'' ?d) = None" by blast
  from t h6 have c: "\<forall>g\<in>set (group_stats (snd (analyze_and_store postgres noon ''12345'' ?d))).
          gs_key g = (''12345'', ''Condo'', 0) \<longrightarrow> gs_std_ppsq g = None"
    by blast
  from t obtain g where g: "g \<in> set (group_stats (snd (analyze_and_store postgres noon ''12345'' ?d)))"
    "gs_key g = (''12345'', ''Condo'', 0)" "count_listings g = 1"
    by blast
  with c have "gs_std_ppsq g = None" by blast
  with g have b: "\<exists>g\<in>set (group_stats (snd (analyze_and_store postgres noon ''12345'' ?d))).
          gs_key g = (''12345'', ''Condo'', 0) \<and> gs_std_ppsq g = None \<and> count_listings g = 1"
    by blast
  from t have "\<exists>r\<in>set (listing_analysis (snd (analyze_and_store postgres noon ''12345'' ?d))).
      la_listing_id r = ''c1''"
    and "\<forall>r\<in>set (listing_analysis (snd (analyze_and_store postgres noon ''12345'' ?d))).
            la_listing_id r = ''c1'' \<longrightarrow> std_ppsq r = None \<and> \<not> is_anomaly r \<and> anomaly_type r = None"
    by blast+
  then have e: "\<exists>r\<in>set (listing_analysis (snd (analyze_and_store postgres noon ''12345'' ?d))).
          la_listing_id r = ''c1'' \<and> std_ppsq r = None \<and> \<not> is_anomaly r \<and> anomaly_type r = None"
    by blast
  from h1 h2 h3 h4 mixed_distinct h6 a b e show ?thesis by blast
qed

subsection \<open>Strict thresholds\<close>

lemma rounding_id: "rounding (\<lambda>x. x)"
  by (simp add: rounding_def)










text \<open>Without rounding, the rounded records are the records of the sections above.\<close>

lemma ppsq_fl_exact: "ppsq_fl (\<lambda>x. x) l = ppsq l"
  by (simp add: ppsq_fl_def ppsq_def)

lemma std_fl_exact: "std_fl (\<lambda>x. x) variance xs = std xs"
proof (cases "length xs < 2")
  case True
  then show ?thesis by (simp add: std_fl_def variance_def std_def)
next
  case False
  let ?q = "sum_list (map (\<lambda>x. (x - sum_list xs / real (length xs))\<^sup>2) xs)"
  have "0 \<le> ?q" by (rule sum_list_nonneg) auto
  then have "0 \<le> ?q / real (length xs - 1)" by (rule divide_nonneg_nonneg) simp
  then have "\<not> ?q / real (length xs - 1) < 0" by simp
  with False show ?thesis by (simp only: std_fl_def variance_def std_def if_False option.case)
qed

lemma flag_row_fl_exact: "flag_row_fl (\<lambda>x. x) x m s = flag_row x m s"
  by (cases "(x, m, s)" rule: flag_row.cases) simp_all

lemma groupby_stats_fl_exact: "groupby_stats_fl (\<lambda>x. x) mean variance df = groupby_stats df"
  by (simp add: groupby_stats_fl_def groupby_stats_def group_values_fl_def group_values_def
      ppsq_fl_exact [abs_def] std_fl_exact)

lemma stat_records_fl_exact:
  "stat_records_fl (\<lambda>x. x) mean variance clock df = stat_records (groupby_stats df) clock df"
  by (simp add: stat_records_fl_def stat_records_def stat_verdict_fl_def stat_verdict_def
      groupby_stats_fl_exact ppsq_fl_exact flag_row_fl_exact)

lemma calculate_deviation_fl_exact:
  "calculate_deviation_fl (\<lambda>x. x) a p = calculate_deviation a p"
  by (simp add: calculate_deviation_fl_def calculate_deviation_def)

lemma ml_records_fl_exact:
  "ml_records_fl (\<lambda>x. x) mean variance m clock df = ml_records m clock df"
  by (simp add: ml_records_fl_def ml_records_def ml_verdict_fl_def ml_verdict_def
      ml_group_stats_fl_def ml_group_stats_def ml_group_values_fl_def ml_group_values_def
      ppsq_fl_exact [abs_def] ppsq_fl_exact std_fl_exact calculate_deviation_fl_exact Let_def
      cong: option.case_cong)










end
